theory Spec2Isabelle
  imports Main
begin

section \<open>Shared Python vocabulary\<close>

text \<open>
  Strings are byte strings (\<open>char list\<close>); the platform identifiers, environment variable
  names and flags that the two modules handle are ASCII. Exceptions are values of one
  datatype; a function that may raise returns \<open>exn + 'a\<close>, with \<open>Inl\<close> the exception.
\<close>

datatype exn =
    ImportError
  | ValueError string
  | NameError string
  | KeyError string
  | TypeError
  | SWATError string
  | RuntimeError string
  | CalledProcessError "string list"
  | OSError
  | PermissionError string
  | Foreign string

text \<open>Python values that travel through \<open>*args\<close> and \<open>**kwargs\<close>.\<close>

datatype pyval = PyNone | PyStr string | PyInt int | PyObj nat

type_synonym environ = "string \<rightharpoonup> string"
type_synonym pyargs = "pyval list"
type_synonym pykwargs = "(string \<times> pyval) list"

text \<open>\<open>s.startswith(p)\<close> and \<open>sub in s\<close> on strings.\<close>

definition startswith :: "string \<Rightarrow> string \<Rightarrow> bool" where
  "startswith s p = (take (length p) s = p)"

fun py_in :: "string \<Rightarrow> string \<Rightarrow> bool" where
  "py_in sub [] = (sub = [])"
| "py_in sub (c # cs) = (startswith (c # cs) sub \<or> py_in sub cs)"

text \<open>\<open>str.lower()\<close> on ASCII: the letters A to Z are mapped, every other byte is kept.\<close>

definition lower_char :: "char \<Rightarrow> char" where
  "lower_char c =
     (case map_of (zip ''ABCDEFGHIJKLMNOPQRSTUVWXYZ'' ''abcdefghijklmnopqrstuvwxyz'') c of
        Some d \<Rightarrow> d
      | None \<Rightarrow> c)"

definition lower :: "string \<Rightarrow> string" where
  "lower s = map lower_char s"

text \<open>
  What the interpreter reports about the host: \<open>sys.platform\<close>, \<open>platform.machine()\<close>
  and \<open>os.pathsep\<close>.
\<close>

record sysinfo =
  sys_platform :: string
  machine :: string
  pathsep :: string

section \<open>swat/clib.py: the runtime binding bridge\<close>

text \<open>
  The compiled extension \<open>_pyswat\<close> is opaque. It is modelled as a function from the
  name of an entry point, the positional and keyword arguments and the process environment
  it can see to the outcome of the call. A native call does not change \<open>os.environ\<close>.
\<close>

type_synonym native = "string \<Rightarrow> pyargs \<Rightarrow> pykwargs \<Rightarrow> environ \<Rightarrow> exn + pyval"

text \<open>
  The module globals that the import leaves behind: the flag \<open>_pyswat_loaded\<close> and the name
  \<open>_pyswat\<close>, which is bound to the module or not bound at all (\<open>None\<close> below).
\<close>

record clib_globals =
  pyswat_loaded :: bool
  pyswat :: "native option"

text \<open>
  Lines 33 to 38. The argument is the outcome of the statement \<open>import _pyswat\<close>. The flag is
  set to False first; an \<open>ImportError\<close> is caught and leaves the name unbound; any other
  exception leaves the module import.
\<close>

definition import_clib :: "exn + native \<Rightarrow> exn + clib_globals" where
  "import_clib ext =
     (case ext of
        Inr m \<Rightarrow> Inr \<lparr>pyswat_loaded = True, pyswat = Some m\<rparr>
      | Inl ImportError \<Rightarrow> Inr \<lparr>pyswat_loaded = False, pyswat = None\<rparr>
      | Inl e \<Rightarrow> Inl e)"

definition pyswat_error :: exn where
  "pyswat_error =
     ValueError (''Could not import import C extension.  This is likely due to '' @
                 ''the SWAT package being installed from source rather than being '' @
                 ''compiled. You can try using the REST interface as an alternative.'')"

text \<open>
  Reading the global name \<open>_pyswat\<close>: a \<open>NameError\<close> when the import did not bind it.
\<close>

definition lookup_pyswat :: "clib_globals \<Rightarrow> exn + native" where
  "lookup_pyswat g = (case pyswat g of None \<Rightarrow> Inl (NameError ''_pyswat'') | Some m \<Rightarrow> Inr m)"

text \<open>The six constructor forwarders, lines 49 to 88.\<close>

definition SW_CASConnection :: "clib_globals \<Rightarrow> environ \<Rightarrow> pyargs \<Rightarrow> pykwargs \<Rightarrow> exn + pyval" where
  "SW_CASConnection g env args kwargs =
     (if \<not> pyswat_loaded g then Inl pyswat_error
      else case lookup_pyswat g of
             Inl e \<Rightarrow> Inl e
           | Inr m \<Rightarrow> m ''SW_CASConnection'' args kwargs env)"

definition SW_CASValueList :: "clib_globals \<Rightarrow> environ \<Rightarrow> pyargs \<Rightarrow> pykwargs \<Rightarrow> exn + pyval" where
  "SW_CASValueList g env args kwargs =
     (if \<not> pyswat_loaded g then Inl pyswat_error
      else case lookup_pyswat g of
             Inl e \<Rightarrow> Inl e
           | Inr m \<Rightarrow> m ''SW_CASValueList'' args kwargs env)"

definition SW_CASFormatter :: "clib_globals \<Rightarrow> environ \<Rightarrow> pyargs \<Rightarrow> pykwargs \<Rightarrow> exn + pyval" where
  "SW_CASFormatter g env args kwargs =
     (if \<not> pyswat_loaded g then Inl pyswat_error
      else case lookup_pyswat g of
             Inl e \<Rightarrow> Inl e
           | Inr m \<Rightarrow> m ''SW_CASFormatter'' args kwargs env)"

definition SW_CASConnectionEventWatcher ::
    "clib_globals \<Rightarrow> environ \<Rightarrow> pyargs \<Rightarrow> pykwargs \<Rightarrow> exn + pyval" where
  "SW_CASConnectionEventWatcher g env args kwargs =
     (if \<not> pyswat_loaded g then Inl pyswat_error
      else case lookup_pyswat g of
             Inl e \<Rightarrow> Inl e
           | Inr m \<Rightarrow> m ''SW_CASConnectionEventWatcher'' args kwargs env)"

definition SW_CASDataBuffer :: "clib_globals \<Rightarrow> environ \<Rightarrow> pyargs \<Rightarrow> pykwargs \<Rightarrow> exn + pyval" where
  "SW_CASDataBuffer g env args kwargs =
     (if \<not> pyswat_loaded g then Inl pyswat_error
      else case lookup_pyswat g of
             Inl e \<Rightarrow> Inl e
           | Inr m \<Rightarrow> m ''SW_CASDataBuffer'' args kwargs env)"

definition SW_CASError :: "clib_globals \<Rightarrow> environ \<Rightarrow> pyargs \<Rightarrow> pykwargs \<Rightarrow> exn + pyval" where
  "SW_CASError g env args kwargs =
     (if \<not> pyswat_loaded g then Inl pyswat_error
      else case lookup_pyswat g of
             Inl e \<Rightarrow> Inl e
           | Inr m \<Rightarrow> m ''SW_CASError'' args kwargs env)"

text \<open>
  \<open>os.environ[k] = v\<close> accepts a string only and raises \<open>TypeError\<close> for any other value;
  a string with an embedded NUL is refused with \<open>ValueError\<close>.
  \<open>del os.environ[k]\<close> raises \<open>KeyError\<close> when the variable is not set.
\<close>

definition environ_setitem :: "environ \<Rightarrow> string \<Rightarrow> pyval \<Rightarrow> exn + environ" where
  "environ_setitem env k v =
     (case v of
        PyStr s \<Rightarrow>
          if CHR 0x00 \<in> set s then Inl (ValueError ''embedded null byte'')
          else Inr (env(k \<mapsto> s))
      | _ \<Rightarrow> Inl TypeError)"

definition environ_delitem :: "environ \<Rightarrow> string \<Rightarrow> exn + environ" where
  "environ_delitem env k = (if env k = None then Inl (KeyError k) else Inr (env(k := None)))"

text \<open>
  \<open>InitializeTK\<close>, lines 91 to 113. The result pairs the outcome of the call with
  \<open>os.environ\<close> as the call leaves it.
  \<^item> Line 93 reads the global \<open>_pyswat\<close>; when the name is not bound this is a \<open>NameError\<close>.
    A bound name holds the module, which is not \<open>None\<close>, so line 94 is not reached.
  \<^item> Lines 97 to 99 patch \<open>TKPATH\<close>; the assignment happens before the \<open>try\<close>, so an
    exception there leaves without running the \<open>finally\<close> block.
  \<^item> Lines 101 to 111: the native call, then the \<open>finally\<close> block on both outcomes. An
    exception raised inside the \<open>finally\<close> block replaces the outcome of the native call.
\<close>

definition InitializeTK ::
    "clib_globals \<Rightarrow> sysinfo \<Rightarrow> environ \<Rightarrow> pyargs \<Rightarrow> pykwargs \<Rightarrow> (exn + pyval) \<times> environ" where
  "InitializeTK g h env args kwargs =
     (case lookup_pyswat g of
        Inl e \<Rightarrow> (Inl e, env)
      | Inr m \<Rightarrow>
          let set_tkpath_env = (py_in ''ppc'' (machine h) \<and> env ''TKPATH'' = None) in
          (case (if set_tkpath_env \<and> args \<noteq> []
                 then environ_setitem env ''TKPATH'' (hd args) else Inr env) of
             Inl e \<Rightarrow> (Inl e, env)
           | Inr env1 \<Rightarrow>
               let out = m ''InitializeTK'' args kwargs env1 in
               (case (if set_tkpath_env then environ_delitem env1 ''TKPATH'' else Inr env1) of
                  Inl e \<Rightarrow> (Inl e, env1)
                | Inr env2 \<Rightarrow>
                    let env3 =
                      (if startswith (lower (sys_platform h)) ''win'' \<and> env2 ''TKPATH'' = None
                       then env2(''TKPATH'' \<mapsto> pathsep h) else env2)
                    in (out, env3))))"

text \<open>
  A native handle answers the query \<open>getLastErrorMessage()\<close> with a byte string.
\<close>

record handle =
  getLastErrorMessage :: string

text \<open>
  \<open>errorcheck\<close>, lines 116 to 142. The decoder \<open>a2u\<close> of \<open>swat/utils/compat.py\<close> is a
  parameter: it takes the message and the name of the encoding.
\<close>

definition errorcheck :: "(string \<Rightarrow> string \<Rightarrow> string) \<Rightarrow> 'a \<Rightarrow> handle option \<Rightarrow> exn + 'a" where
  "errorcheck a2u expr obj =
     (case obj of
        None \<Rightarrow> Inr expr
      | Some h \<Rightarrow>
          let msg = getLastErrorMessage h in
          if msg \<noteq> [] then Inl (SWATError (a2u msg ''utf-8'')) else Inr expr)"

section \<open>setup.py: the build of the extension\<close>

subsection \<open>Strings\<close>

text \<open>
  \<open>s.split(sep)\<close> with a one-character separator keeps empty fields;
  \<open>s.split()\<close> splits at runs of white space and yields no empty field. The first argument
  of both functions is the field read so far.

  What counts as white space or as a decimal digit outside ASCII depends on the Unicode
  tables of the interpreter, and on whether the string is a byte string (Python 2) or a text
  string (Python 3). The functions below are what every interpreter does on plain text:
  printable ASCII and the six white-space characters tab, line feed, vertical tab, form
  feed, carriage return and space. For any other string the answer is a parameter of the
  host (\<open>split_other\<close> and \<open>match_non_ascii\<close> below). A string is a list of 8-bit
  characters; text outside ASCII is carried in some encoding, and the host sees the
  encoded string.
\<close>

definition is_ascii :: "char \<Rightarrow> bool" where
  "is_ascii c = ((of_char c :: nat) < 128)"

definition is_plain :: "char \<Rightarrow> bool" where
  "is_plain c = (let n = (of_char c :: nat) in (32 \<le> n \<and> n < 127) \<or> (9 \<le> n \<and> n \<le> 13))"

fun split_on :: "char \<Rightarrow> string \<Rightarrow> string \<Rightarrow> string list" where
  "split_on sep cur [] = [cur]"
| "split_on sep cur (c # cs) =
     (if c = sep then cur # split_on sep [] cs else split_on sep (cur @ [c]) cs)"

definition is_space :: "char \<Rightarrow> bool" where
  "is_space c = (c \<in> set [CHR '' '', CHR 0x09, CHR 0x0A, CHR 0x0B, CHR 0x0C, CHR 0x0D])"

fun split_ws :: "string \<Rightarrow> string \<Rightarrow> string list" where
  "split_ws cur [] = (if cur = [] then [] else [cur])"
| "split_ws cur (c # cs) =
     (if is_space c then (if cur = [] then [] else [cur]) @ split_ws [] cs
      else split_ws (cur @ [c]) cs)"

text \<open>\<open>s.replace('/', '\\')\<close>.\<close>

definition replace_slash :: "string \<Rightarrow> string" where
  "replace_slash s = map (\<lambda>c. if c = CHR ''/'' then CHR 0x5C else c) s"

text \<open>\<open>'%s' % n\<close> for a natural number.\<close>

fun str_nat :: "nat \<Rightarrow> string" where
  "str_nat n =
     (if n < 10 then [''0123456789'' ! n]
      else str_nat (n div 10) @ [''0123456789'' ! (n mod 10)])"

declare str_nat.simps [simp del]

text \<open>
  \<open>re.match(r'^\d+\.\d+', s)\<close> on ASCII text, read left to right: one or more decimal
  digits, a dot, one or more decimal digits. Each step returns the rest of the string after
  what it has consumed. The pattern has no end anchor, so nothing is asked of the rest.
  Taking all leading digits at once loses no match: the dot is not a digit.
\<close>

text \<open>The ASCII decimal digits.\<close>

definition is_digit :: "char \<Rightarrow> bool" where
  "is_digit c = (c \<in> set ''0123456789'')"

definition re_digits :: "string \<Rightarrow> string option" where
  "re_digits s = (if takeWhile is_digit s = [] then None else Some (dropWhile is_digit s))"

definition re_dot :: "string \<Rightarrow> string option" where
  "re_dot s = (case s of [] \<Rightarrow> None | c # cs \<Rightarrow> if c = CHR ''.'' then Some cs else None)"

definition re_match_version :: "string \<Rightarrow> bool" where
  "re_match_version s =
     (case re_digits s of
        None \<Rightarrow> False
      | Some r1 \<Rightarrow>
          (case re_dot r1 of
             None \<Rightarrow> False
           | Some r2 \<Rightarrow> re_digits r2 \<noteq> None))"

definition environ_get :: "environ \<Rightarrow> string \<Rightarrow> string \<Rightarrow> string" where
  "environ_get env k dflt = (case env k of None \<Rightarrow> dflt | Some v \<Rightarrow> v)"

subsection \<open>The build description, the host and the world\<close>

text \<open>The fields of a setuptools \<open>Extension\<close> that the build step reads and writes.\<close>

record extension =
  name :: string
  sources :: "string list"
  include_dirs :: "string list"
  extra_compile_args :: "string list"
  extra_link_args :: "string list"

text \<open>
  An entry of the file system is a file or a directory with its entries. It has a name and
  two flags. The first, read-only, is the read-only attribute on Windows and the lack of
  write permission for the process on POSIX. The second, busy, marks an entry that cannot
  be removed whatever its attributes are (a file open in another process on Windows, an
  immutable file).
\<close>

datatype node = File string bool bool | Dir string bool bool "node list"

fun node_name :: "node \<Rightarrow> string" where
  "node_name (File nm ro busy) = nm"
| "node_name (Dir nm ro busy cs) = nm"

fun node_ro :: "node \<Rightarrow> bool" where
  "node_ro (File nm ro busy) = ro"
| "node_ro (Dir nm ro busy cs) = ro"

fun node_busy :: "node \<Rightarrow> bool" where
  "node_busy (File nm ro busy) = busy"
| "node_busy (Dir nm ro busy cs) = busy"

text \<open>
  The file system is the list of the entries of the directory in which \<open>mkdtemp\<close> works;
  a workspace is one of them, named by its full path.
\<close>

type_synonym fsys = "node list"

text \<open>
  A subprocess either exits with a status or cannot be started at all (the program is not
  found: \<open>subprocess\<close> raises \<open>OSError\<close>). A process that ran may have changed what the
  existing directories hold: \<open>effect\<close> maps the name of a directory and its entries to the
  entries it leaves there.
\<close>

datatype proc_status = Exited nat | NotFound

record outcome =
  status :: proc_status
  effect :: "string \<Rightarrow> node list \<Rightarrow> node list"

fun apply_effect :: "(string \<Rightarrow> node list \<Rightarrow> node list) \<Rightarrow> node \<Rightarrow> node" where
  "apply_effect f (Dir nm ro busy cs) = Dir nm ro busy (f nm cs)"
| "apply_effect f (File nm ro busy) = File nm ro busy"

text \<open>What the build step does to the outside, in order.\<close>

datatype event =
    Call "string list" string environ
  | Mkdtemp string
  | Makedirs string
  | Rmtree string
  | BuildExt extension

text \<open>The state the build step changes: the log of events, and the file system.\<close>

record world =
  events :: "event list"
  fs :: fsys

text \<open>
  What the build step reads from its host and does not change: \<open>os.environ\<close>,
  \<open>os.getcwd()\<close>, whether \<open>/usr/bin/gcc\<close> is a file, \<open>sys.prefix\<close> (or \<open>sys.real_prefix\<close>),
  \<open>sys.version_info[:2]\<close>, the include directories of the compiler object, the absolute
  path of the extension file, \<open>os.path.join\<close>, the directory that \<open>tempfile.mkdtemp()\<close>
  returns, how a subprocess started after a given history ends, how the
  \<open>build_extension\<close> of setuptools ends, and what the interpreter makes of strings that are
  not plain text: \<open>str.split()\<close> on such a string, and whether the version pattern matches
  a field through decimal digits outside ASCII.
\<close>

record buildhost = sysinfo +
  os_environ :: environ
  getcwd :: string
  isfile_usr_bin_gcc :: bool
  sys_prefix :: string
  version_info :: "nat \<times> nat"
  compiler_include_dirs :: "string list"
  ext_fullpath :: "string \<Rightarrow> string"
  path_join :: "string \<Rightarrow> string \<Rightarrow> string"
  mkdtemp :: string
  run :: "event list \<Rightarrow> string list \<Rightarrow> string \<Rightarrow> environ \<Rightarrow> outcome"
  super_build_extension :: "event list \<Rightarrow> extension \<Rightarrow> exn + unit"
  split_other :: "string \<Rightarrow> string list"
  match_non_ascii :: "string \<Rightarrow> bool"

definition LIBSWAT_ROOT :: string where
  "LIBSWAT_ROOT = ''gitlab.sas.com/kesmit/go-libswat''"

definition GO_GET_FLAGS :: string where
  "GO_GET_FLAGS = ''-insecure''"

definition GO_BUILD_FLAGS :: string where
  "GO_BUILD_FLAGS = ''''"

subsection \<open>Running a command\<close>

text \<open>
  \<open>_check_call\<close>, lines 158 to 162: the command runs in the host environment overlaid with
  \<open>env\<close>. A program that is not found raises \<open>OSError\<close>, an exit status other than zero
  raises \<open>CalledProcessError\<close>. The line echoed to \<open>sys.stderr\<close> is not modelled.
\<close>

definition check_call ::
    "buildhost \<Rightarrow> string list \<Rightarrow> string \<Rightarrow> environ \<Rightarrow> world \<Rightarrow> (exn + unit) \<times> world" where
  "check_call h cmd cwd env w =
     (let penv = os_environ h ++ env;
          out = run h (events w) cmd cwd penv;
          w1 = w\<lparr>events := events w @ [Call cmd cwd penv]\<rparr>
      in case status out of
           NotFound \<Rightarrow> (Inl OSError, w1)
         | Exited n \<Rightarrow>
             let w2 = w1\<lparr>fs := map (apply_effect (effect out)) (fs w1)\<rparr>
             in if n = 0 then (Inr (), w2) else (Inl (CalledProcessError cmd), w2))"

subsection \<open>The platform profile\<close>

text \<open>Lines 71 to 77: the platform profile, from \<open>sys.platform\<close>.\<close>

definition classify :: "string \<Rightarrow> string" where
  "classify raw =
     (let platform = lower raw
      in if startswith platform ''win'' then ''win''
         else if startswith platform ''darwin'' then ''osx''
         else ''unix'')"

subsection \<open>The staging workspace\<close>

text \<open>
  When a removal fails. On Windows an entry with the read-only attribute cannot be removed.
  On POSIX the attributes of the entry do not matter: it cannot be removed from a directory
  that the process may not write. A busy entry cannot be removed on either. The profile
  \<open>win\<close> has the Windows rules, every other profile the POSIX rules.
\<close>

datatype os_kind = Posix | Windows

definition fs_kind :: "buildhost \<Rightarrow> os_kind" where
  "fs_kind h = (if classify (sys_platform h) = ''win'' then Windows else Posix)"

definition can_remove :: "os_kind \<Rightarrow> bool \<Rightarrow> node \<Rightarrow> bool" where
  "can_remove k parent_ro n =
     (\<not> node_busy n \<and> (case k of Windows \<Rightarrow> \<not> node_ro n | Posix \<Rightarrow> \<not> parent_ro))"

text \<open>
  A removal is tried on an entry of a directory and answers with the exception it raised,
  if any; when it raised none the entry is gone. \<open>os.unlink\<close> removes a file, \<open>os.rmdir\<close>
  a directory that is empty. The first argument of both is the kind of file system, the
  second whether the directory that holds the entry is read-only.
\<close>

type_synonym removal = "node \<Rightarrow> exn option"

definition os_unlink :: "os_kind \<Rightarrow> bool \<Rightarrow> removal" where
  "os_unlink k parent_ro n =
     (if can_remove k parent_ro n then None else Some (PermissionError (node_name n)))"

definition os_rmdir :: "os_kind \<Rightarrow> bool \<Rightarrow> removal" where
  "os_rmdir k parent_ro n =
     (case n of
        File nm ro busy \<Rightarrow> Some OSError
      | Dir nm ro busy cs \<Rightarrow>
          if cs \<noteq> [] then Some OSError
          else if can_remove k parent_ro n then None
          else Some (PermissionError nm))"

text \<open>\<open>os.chmod(name, stat.S_IWRITE)\<close> makes the entry itself writable.\<close>

fun os_chmod_S_IWRITE :: "node \<Rightarrow> node" where
  "os_chmod_S_IWRITE (File nm ro busy) = File nm False busy"
| "os_chmod_S_IWRITE (Dir nm ro busy cs) = Dir nm False busy cs"

text \<open>
  A handler for \<open>shutil.rmtree\<close> receives the removal that failed, the entry and the
  exception. It answers with the exception it raised itself, if any, and with the entry
  if it is still there.

  The handler \<open>err\<close> of lines 170 to 173 makes the entry writable and runs the failed
  removal again; if that fails again, its exception leaves the handler.
\<close>

type_synonym handler = "removal \<Rightarrow> node \<Rightarrow> exn \<Rightarrow> exn option \<times> node option"

definition err :: handler where
  "err action n exc =
     (let n1 = os_chmod_S_IWRITE n
      in case action n1 of None \<Rightarrow> (None, None) | Some exc2 \<Rightarrow> (Some exc2, Some n1))"

text \<open>The behaviour of \<open>shutil.rmtree\<close> without a handler: the exception is raised again.\<close>

definition reraise :: handler where
  "reraise action n exc = (Some exc, Some n)"

text \<open>
  \<open>shutil.rmtree\<close> on an entry: a file is unlinked; for a directory its entries are
  removed in turn, then the directory itself. When a removal fails the handler is called;
  an exception of the handler ends the walk, otherwise the walk goes on. The result is the
  exception that ended the walk, if any, and what is left of the entry. The second
  function walks the entries of a directory whose read-only flag is its third argument.
\<close>

fun rmtree_node :: "os_kind \<Rightarrow> handler \<Rightarrow> bool \<Rightarrow> node \<Rightarrow> exn option \<times> node option"
and rmtree_entries :: "os_kind \<Rightarrow> handler \<Rightarrow> bool \<Rightarrow> node list \<Rightarrow> exn option \<times> node list"
where
  "rmtree_node k onerror parent_ro (File nm ro busy) =
     (case os_unlink k parent_ro (File nm ro busy) of
        None \<Rightarrow> (None, None)
      | Some exc \<Rightarrow> onerror (os_unlink k parent_ro) (File nm ro busy) exc)"
| "rmtree_node k onerror parent_ro (Dir nm ro busy cs) =
     (case rmtree_entries k onerror ro cs of
        (Some exc, cs1) \<Rightarrow> (Some exc, Some (Dir nm ro busy cs1))
      | (None, cs1) \<Rightarrow>
          (case os_rmdir k parent_ro (Dir nm ro busy cs1) of
             None \<Rightarrow> (None, None)
           | Some exc \<Rightarrow> onerror (os_rmdir k parent_ro) (Dir nm ro busy cs1) exc))"
| "rmtree_entries k onerror dir_ro [] = (None, [])"
| "rmtree_entries k onerror dir_ro (n # ns) =
     (case rmtree_node k onerror dir_ro n of
        (Some exc, left) \<Rightarrow> (Some exc, (case left of None \<Rightarrow> ns | Some n1 \<Rightarrow> n1 # ns))
      | (None, left) \<Rightarrow>
          (case rmtree_entries k onerror dir_ro ns of
             (e, ns1) \<Rightarrow> (e, (case left of None \<Rightarrow> ns1 | Some n1 \<Rightarrow> n1 # ns1))))"

text \<open>
  \<open>shutil.rmtree(d, onerror=f)\<close> on the file system: the walk starts at the entry whose
  name is \<open>d\<close>. The directory that holds it is writable: \<open>mkdtemp\<close> has made an entry in
  it. A path that does not exist, and a path that is a file, make the first system call of
  \<open>rmtree\<close> fail in a way that no change of mode cures.
\<close>

fun rmtree :: "os_kind \<Rightarrow> string \<Rightarrow> handler \<Rightarrow> fsys \<Rightarrow> exn option \<times> fsys" where
  "rmtree k d onerror [] = (Some OSError, [])"
| "rmtree k d onerror (n # ns) =
     (if node_name n = d then
        (case (case n of
                 Dir nm ro busy cs \<Rightarrow> rmtree_node k onerror False n
               | File nm ro busy \<Rightarrow> onerror (\<lambda>x. Some OSError) n OSError) of
           (e, left) \<Rightarrow> (e, (case left of None \<Rightarrow> ns | Some n1 \<Rightarrow> n1 # ns)))
      else (case rmtree k d onerror ns of (e, ns1) \<Rightarrow> (e, n # ns1)))"

text \<open>
  An entry can be removed by \<open>rmtree\<close> with the handler \<open>err\<close> when every removal in it
  succeeds at once or after the entry has been made writable: nothing in it is busy and,
  on POSIX, every entry lies in a writable directory. On Windows the read-only flags do
  not matter, as the handler clears them.
\<close>

fun removable :: "os_kind \<Rightarrow> bool \<Rightarrow> node \<Rightarrow> bool"
and removable_all :: "os_kind \<Rightarrow> bool \<Rightarrow> node list \<Rightarrow> bool"
where
  "removable k parent_ro (File nm ro busy) = (\<not> busy \<and> (k = Windows \<or> \<not> parent_ro))"
| "removable k parent_ro (Dir nm ro busy cs) =
     (removable_all k ro cs \<and> \<not> busy \<and> (k = Windows \<or> \<not> parent_ro))"
| "removable_all k dir_ro [] = True"
| "removable_all k dir_ro (n # ns) = (removable k dir_ro n \<and> removable_all k dir_ro ns)"


text \<open>
  \<open>_tmpdir\<close>, lines 164 to 174, as a scope around the body of the \<open>with\<close> statement. The
  body receives the directory, which \<open>mkdtemp\<close> has made empty and writable; the
  \<open>finally\<close> block runs on either outcome of the body. An exception of \<open>rmtree\<close> replaces
  the outcome of the body.
\<close>

definition tmpdir ::
    "buildhost \<Rightarrow> (string \<Rightarrow> extension \<Rightarrow> world \<Rightarrow> (exn + unit) \<times> extension \<times> world)
       \<Rightarrow> extension \<Rightarrow> world \<Rightarrow> (exn + unit) \<times> extension \<times> world" where
  "tmpdir h body ext w =
     (let tempdir = mkdtemp h;
          w1 = w\<lparr>events := events w @ [Mkdtemp tempdir],
                fs := Dir tempdir False False [] # fs w\<rparr>
      in case body tempdir ext w1 of
           (r, ext1, w2) \<Rightarrow>
             (let w3 = w2\<lparr>events := events w2 @ [Rmtree tempdir]\<rparr>
              in (case rmtree (fs_kind h) tempdir err (fs w3) of
                    (Some exc, fsy) \<Rightarrow> (Inl exc, ext1, w3\<lparr>fs := fsy\<rparr>)
                  | (None, fsy) \<Rightarrow> (r, ext1, w3\<lparr>fs := fsy\<rparr>))))"

subsection \<open>The steps of \<open>build_extension\<close>\<close>

text \<open>
  Line 89, \<open>os.makedirs(os.path.join(tempdir, 'src'))\<close>: a new, writable directory \<open>leaf\<close>
  in the directory \<open>d\<close>, whose path is \<open>p\<close>. The directory \<open>d\<close> is the one \<open>mkdtemp\<close> has
  just made, so the call does not fail.
\<close>

definition makedirs :: "string \<Rightarrow> string \<Rightarrow> string \<Rightarrow> world \<Rightarrow> world" where
  "makedirs d leaf p w =
     w\<lparr>events := events w @ [Makedirs p],
       fs := map (apply_effect (\<lambda>nm cs. if nm = d then cs @ [Dir leaf False False []] else cs))
               (fs w)\<rparr>"

text \<open>\<open>s.split()\<close> and the version pattern, on any string.\<close>

definition py_split :: "buildhost \<Rightarrow> string \<Rightarrow> string list" where
  "py_split h s = (if list_all is_plain s then split_ws [] s else split_other h s)"

definition re_match :: "buildhost \<Rightarrow> string \<Rightarrow> bool" where
  "re_match h s = (re_match_version s \<or> (\<not> list_all is_ascii s \<and> match_non_ascii h s))"

text \<open>Lines 93 to 95: the fetch command.\<close>

definition go_get_cmd :: "buildhost \<Rightarrow> string \<Rightarrow> string list" where
  "go_get_cmd h libswat_root =
     [''go'', ''get'', ''-d''] @
     filter (\<lambda>x. x \<noteq> []) (py_split h (environ_get (os_environ h) ''GO_GET_FLAGS'' GO_GET_FLAGS)) @
     [libswat_root]"

text \<open>
  Lines 96 to 103: two \<open>try\<close> statements, one after the other, each running the fetch
  command and discarding any exception.
\<close>

definition fetch :: "buildhost \<Rightarrow> string list \<Rightarrow> string \<Rightarrow> environ \<Rightarrow> world \<Rightarrow> world" where
  "fetch h cmd src_path env w =
     (let w1 = (case check_call h cmd src_path env w of (Inl e, w') \<Rightarrow> w' | (Inr u, w') \<Rightarrow> w');
          w2 = (case check_call h cmd src_path env w1 of (Inl e, w') \<Rightarrow> w' | (Inr u, w') \<Rightarrow> w')
      in w2)"

text \<open>Lines 106 to 112: the deployment target and the compiler, on the \<open>osx\<close> profile.\<close>

definition osx_env :: "buildhost \<Rightarrow> string \<Rightarrow> environ \<Rightarrow> environ" where
  "osx_env h platform env =
     (if platform = ''osx'' then
        let plat = split_on CHR ''-'' [] (environ_get (os_environ h) ''PLAT'' ''-10.7-'');
            env1 = (if length plat > 1 \<and> re_match h (plat ! 1)
                    then env(''MACOSX_DEPLOYMENT_TARGET'' \<mapsto> plat ! 1) else env)
        in if isfile_usr_bin_gcc h then env1(''CC'' \<mapsto> ''/usr/bin/gcc'') else env1
      else env)"

text \<open>Lines 115 to 117 and 122 to 124: the generator and the archive build commands.\<close>

definition swig_cmd :: "buildhost \<Rightarrow> string \<Rightarrow> string \<Rightarrow> string list" where
  "swig_cmd h src_path root_path =
     [''swig'', ''-outdir'', src_path, ''-python'', ''-builtin'',
      ''-module'', ''pyswat'', ''-o'', path_join h src_path ''pyswat.c'',
      path_join h root_path ''swat.i'']"

definition go_build_cmd :: "buildhost \<Rightarrow> string \<Rightarrow> string list" where
  "go_build_cmd h libswat_a =
     [''go'', ''build'', ''-buildmode=c-archive''] @
     filter (\<lambda>x. x \<noteq> []) (py_split h (environ_get (os_environ h) ''GO_BUILD_FLAGS'' GO_BUILD_FLAGS)) @
     [''-o'', libswat_a]"

text \<open>
  Lines 127 to 137: the five warning flags are appended as they are; the include directory
  and the archive are appended when they are not in their list yet.
\<close>

definition link_prepare :: "string \<Rightarrow> string \<Rightarrow> extension \<Rightarrow> extension" where
  "link_prepare root_path libswat_a ext =
     (let ext1 = ext\<lparr>extra_compile_args := extra_compile_args ext @
                   [''-Wno-unused-variable'', ''-Wno-unused-label'', ''-Wno-unused-function'',
                    ''-Wno-visibility'', ''-Wno-strict-prototypes'']\<rparr>;
          ext2 = (if root_path \<notin> set (include_dirs ext1)
                  then ext1\<lparr>include_dirs := include_dirs ext1 @ [root_path]\<rparr> else ext1);
          ext3 = (if libswat_a \<notin> set (extra_link_args ext2)
                  then ext2\<lparr>extra_link_args := extra_link_args ext2 @ [libswat_a]\<rparr> else ext2)
      in ext3)"

text \<open>Lines 140 to 151: the link command of the \<open>win\<close> profile.\<close>

definition win_link_cmd :: "buildhost \<Rightarrow> extension \<Rightarrow> string list" where
  "win_link_cmd h ext =
     (let libs = [''-L'' @ path_join h (sys_prefix h) ''libs'',
                  ''-lpython'' @ str_nat (fst (version_info h)) @ str_nat (snd (version_info h))]
      in [''gcc''] @ sources ext @
         extra_link_args ext @
         [''-D'', ''MS_WIN64'', ''-O2''] @
         map (\<lambda>x. ''-I'' @ x) (include_dirs ext) @
         map (\<lambda>x. ''-I'' @ x) (compiler_include_dirs h) @
         extra_compile_args ext @
         libs @ [''-fpic'', ''-shared''] @
         [''-o'', ext_fullpath h (name ext)])"

text \<open>Line 156: the \<open>build_extension\<close> of setuptools, which is not part of this module.\<close>

definition build_ext_build_extension ::
    "buildhost \<Rightarrow> extension \<Rightarrow> world \<Rightarrow> (exn + unit) \<times> extension \<times> world" where
  "build_ext_build_extension h ext w =
     (super_build_extension h (events w) ext, ext, w\<lparr>events := events w @ [BuildExt ext]\<rparr>)"

text \<open>
  Lines 80 to 156, the body of the \<open>with\<close> statement. The changes made to \<open>ext\<close> before
  an exception stay.
\<close>

definition build_body ::
    "buildhost \<Rightarrow> string \<Rightarrow> string \<Rightarrow> extension \<Rightarrow> world
       \<Rightarrow> (exn + unit) \<times> extension \<times> world" where
  "build_body h platform tempdir ext w =
     (let libswat_root = environ_get (os_environ h) ''LIBSWAT_ROOT'' LIBSWAT_ROOT;
          src_path = path_join h tempdir ''src'';
          mod_path = path_join h (path_join h tempdir ''pkg'') ''mod'';
          libswat_a = path_join h src_path ''libswat.a'';
          root_path = (if platform = ''win''
                       then path_join h src_path (replace_slash libswat_root)
                       else path_join h src_path libswat_root);
          w1 = makedirs tempdir ''src'' src_path w;
          env = [''GOPATH'' \<mapsto> tempdir, ''GO111MODULE'' \<mapsto> ''auto''];
          w2 = fetch h (go_get_cmd h libswat_root) src_path env w1;
          env1 = osx_env h platform env
      in case check_call h (swig_cmd h src_path root_path) root_path env1 w2 of
           (Inl e, w3) \<Rightarrow> (Inl e, ext, w3)
         | (Inr u, w3) \<Rightarrow>
             (let ext1 = ext\<lparr>sources := sources ext @ [path_join h src_path ''pyswat.c'']\<rparr>
              in (case check_call h (go_build_cmd h libswat_a) root_path env1 w3 of
                    (Inl e, w4) \<Rightarrow> (Inl e, ext1, w4)
                  | (Inr u, w4) \<Rightarrow>
                      (let ext2 = link_prepare root_path libswat_a ext1
                       in if platform = ''win''
                          then (case check_call h (win_link_cmd h ext2) (getcwd h) env1 w4 of
                                  (r, w5) \<Rightarrow> (r, ext2, w5))
                          else build_ext_build_extension h ext2 w4))))"

definition go_missing :: exn where
  "go_missing =
     RuntimeError (''The Go tools do not appear to be installed.  '' @
                   ''Make sure that they are installed '' @
                   ''(see https://golang.org) and that the go '' @
                   ''command is in your system path.'')"

definition swig_missing :: exn where
  "swig_missing =
     RuntimeError (''SWIG does not appear to be installed.  '' @
                   ''Make sure that it is installed '' @
                   ''(see http://www.swig.org) and that the swig '' @
                   ''command is in your system path.'')"

text \<open>
  \<open>build_extension\<close>, lines 49 to 156. Each probe catches \<open>CalledProcessError\<close> only; any
  other exception of the probe leaves the function as it is.
\<close>

definition build_extension ::
    "buildhost \<Rightarrow> extension \<Rightarrow> world \<Rightarrow> (exn + unit) \<times> extension \<times> world" where
  "build_extension h ext w =
     (case check_call h [''go'', ''version''] (getcwd h) Map.empty w of
        (Inl (CalledProcessError c), w1) \<Rightarrow> (Inl go_missing, ext, w1)
      | (Inl e, w1) \<Rightarrow> (Inl e, ext, w1)
      | (Inr u, w1) \<Rightarrow>
          (case check_call h [''swig'', ''-version''] (getcwd h) Map.empty w1 of
             (Inl (CalledProcessError c), w2) \<Rightarrow> (Inl swig_missing, ext, w2)
           | (Inl e, w2) \<Rightarrow> (Inl e, ext, w2)
           | (Inr u, w2) \<Rightarrow> tmpdir h (build_body h (classify (sys_platform h))) ext w2))"

text \<open>The events that a run has added to the log.\<close>

definition new_events :: "world \<Rightarrow> world \<Rightarrow> event list" where
  "new_events w w' = drop (length (events w)) (events w')"

definition is_call_of :: "string list \<Rightarrow> event \<Rightarrow> bool" where
  "is_call_of cmd e = (case e of Call c d v \<Rightarrow> c = cmd | _ \<Rightarrow> False)"

text \<open>
  What a subprocess or \<open>makedirs\<close> may do to the file system: change what the existing
  directories hold.
\<close>

definition reshaped :: "fsys \<Rightarrow> fsys \<Rightarrow> bool" where
  "reshaped fsy fsy1 = (\<exists>f. fsy1 = map (apply_effect f) fsy)"

definition is_mkdtemp :: "event \<Rightarrow> bool" where
  "is_mkdtemp e = (case e of Mkdtemp d \<Rightarrow> True | _ \<Rightarrow> False)"

definition is_rmtree :: "event \<Rightarrow> bool" where
  "is_rmtree e = (case e of Rmtree d \<Rightarrow> True | _ \<Rightarrow> False)"

text \<open>
  An event that is a subprocess call of a command other than \<open>cmd\<close>, or the setuptools
  build: what may follow the generator call inside the workspace.
\<close>

definition tail_event :: "string list \<Rightarrow> event \<Rightarrow> bool" where
  "tail_event cmd e = (case e of Call c d v \<Rightarrow> c \<noteq> cmd | BuildExt x \<Rightarrow> True | _ \<Rightarrow> False)"

text \<open>Both toolchain probes of lines 51 to 69 return without an exception.\<close>

definition probes_ok :: "buildhost \<Rightarrow> world \<Rightarrow> bool" where
  "probes_ok h w =
     (case check_call h [''go'', ''version''] (getcwd h) Map.empty w of
        (Inl e, w1) \<Rightarrow> False
      | (Inr u, w1) \<Rightarrow>
          fst (check_call h [''swig'', ''-version''] (getcwd h) Map.empty w1) = Inr ())"

text \<open>
  The first seven events of a run whose probes pass: the two probes, the creation of the
  workspace and of its \<open>src\<close> directory, the fetch command twice, the generator.
\<close>

definition staged_events :: "buildhost \<Rightarrow> event list" where
  "staged_events h =
     (let platform = classify (sys_platform h);
          tempdir = mkdtemp h;
          root = environ_get (os_environ h) ''LIBSWAT_ROOT'' LIBSWAT_ROOT;
          src = path_join h tempdir ''src'';
          rootp = (if platform = ''win'' then path_join h src (replace_slash root)
                   else path_join h src root);
          env = [''GOPATH'' \<mapsto> tempdir, ''GO111MODULE'' \<mapsto> ''auto'']
      in [Call [''go'', ''version''] (getcwd h) (os_environ h),
          Call [''swig'', ''-version''] (getcwd h) (os_environ h),
          Mkdtemp tempdir,
          Makedirs src,
          Call (go_get_cmd h root) src (os_environ h ++ env),
          Call (go_get_cmd h root) src (os_environ h ++ env),
          Call (swig_cmd h src rootp) rootp (os_environ h ++ osx_env h platform env)])"

text \<open>
  The reading of "a \<open><major>.<minor>\<close> numeric pattern" as the whole field: digits, one
  dot, digits, and nothing else. It is compared with \<open>re_match_version\<close> below.
\<close>

definition spec_major_minor :: "string \<Rightarrow> bool" where
  "spec_major_minor s =
     (case split_on CHR ''.'' [] s of
        [a, b] \<Rightarrow> a \<noteq> [] \<and> b \<noteq> [] \<and> list_all is_digit a \<and> list_all is_digit b
      | _ \<Rightarrow> False)"

subsection \<open>Example hosts\<close>

text \<open>
  A host with POSIX paths, a workspace at \<open>/tmp/b\<close> and a setuptools build that succeeds.
  Its subprocesses end as the three given statuses say: the \<open>go version\<close> probe, the fetch
  command and the generator; every other command exits with status 0. The fetch command
  leaves a directory \<open>pkg\<close> in the workspace: with \<open>example_run\<close> it holds a read-only file
  in writable directories, with \<open>modcache_run\<close> the directory \<open>mod\<close> is read-only too, as
  the module cache of Go is.
\<close>

definition posix_join :: "string \<Rightarrow> string \<Rightarrow> string" where
  "posix_join a b = a @ ''/'' @ b"

definition leave :: "string \<Rightarrow> node \<Rightarrow> string \<Rightarrow> node list \<Rightarrow> node list" where
  "leave d n nm cs = (if nm = d \<and> n \<notin> set cs then cs @ [n] else cs)"

definition no_effect :: "string \<Rightarrow> node list \<Rightarrow> node list" where
  "no_effect nm cs = cs"

definition run_leaving ::
    "node \<Rightarrow> proc_status \<Rightarrow> proc_status \<Rightarrow> proc_status
       \<Rightarrow> event list \<Rightarrow> string list \<Rightarrow> string \<Rightarrow> environ \<Rightarrow> outcome" where
  "run_leaving n go_probe go_get swig evs cmd cwd env =
     (if cmd = [''go'', ''version''] then \<lparr>status = go_probe, effect = no_effect\<rparr>
      else if take 2 cmd = [''go'', ''get'']
        then \<lparr>status = go_get, effect = leave ''/tmp/b'' n\<rparr>
      else if take 2 cmd = [''swig'', ''-outdir''] then \<lparr>status = swig, effect = no_effect\<rparr>
      else \<lparr>status = Exited 0, effect = no_effect\<rparr>)"

definition example_run ::
    "proc_status \<Rightarrow> proc_status \<Rightarrow> proc_status
       \<Rightarrow> event list \<Rightarrow> string list \<Rightarrow> string \<Rightarrow> environ \<Rightarrow> outcome" where
  "example_run =
     run_leaving (Dir ''pkg'' False False [Dir ''mod'' False False [File ''cache.lock'' True False]])"

definition modcache_run ::
    "proc_status \<Rightarrow> proc_status \<Rightarrow> proc_status
       \<Rightarrow> event list \<Rightarrow> string list \<Rightarrow> string \<Rightarrow> environ \<Rightarrow> outcome" where
  "modcache_run =
     run_leaving (Dir ''pkg'' False False [Dir ''mod'' True False [File ''cache.lock'' True False]])"

definition example_host ::
    "(event list \<Rightarrow> string list \<Rightarrow> string \<Rightarrow> environ \<Rightarrow> outcome) \<Rightarrow> environ \<Rightarrow> string
       \<Rightarrow> buildhost" where
  "example_host r env plat =
     \<lparr>sys_platform = plat, machine = ''x86_64'', pathsep = '':'',
      os_environ = env, getcwd = ''/work'', isfile_usr_bin_gcc = False,
      sys_prefix = ''/usr'', version_info = (3, 7), compiler_include_dirs = [],
      ext_fullpath = (\<lambda>n. ''/work/build/'' @ n @ ''.so''), path_join = posix_join,
      mkdtemp = ''/tmp/b'', run = r, super_build_extension = (\<lambda>evs e. Inr ()),
      split_other = (\<lambda>s. split_ws [] s), match_non_ascii = (\<lambda>s. False)\<rparr>"

definition example_ext :: extension where
  "example_ext = \<lparr>name = ''_pyswat'', sources = [], include_dirs = [],
                  extra_compile_args = [], extra_link_args = []\<rparr>"

definition empty_world :: world where
  "empty_world = \<lparr>events = [], fs = []\<rparr>"

section \<open>Properties of the runtime binding bridge\<close>

lemma import_failed_does_not_raise:
  "import_clib (Inl ImportError) = Inr \<lparr>pyswat_loaded = False, pyswat = None\<rparr>"
  by (simp add: import_clib_def)

text \<open>
  After a failed load, each of the six constructor forwarders raises the \<open>ValueError\<close> of
  \<open>_pyswat_error\<close>, whatever the arguments and whatever the name \<open>_pyswat\<close> holds: no native
  entry point is consulted.
\<close>

lemma forwarders_unavailable:
  assumes "\<not> pyswat_loaded g"
  shows "SW_CASConnection g env args kwargs = Inl pyswat_error"
    and "SW_CASValueList g env args kwargs = Inl pyswat_error"
    and "SW_CASFormatter g env args kwargs = Inl pyswat_error"
    and "SW_CASConnectionEventWatcher g env args kwargs = Inl pyswat_error"
    and "SW_CASDataBuffer g env args kwargs = Inl pyswat_error"
    and "SW_CASError g env args kwargs = Inl pyswat_error"
  using assms
  by (simp_all add: SW_CASConnection_def SW_CASValueList_def SW_CASFormatter_def
        SW_CASConnectionEventWatcher_def SW_CASDataBuffer_def SW_CASError_def)

text \<open>
  C1. For every result \<open>expr\<close> and every handle \<open>obj\<close>: when \<open>obj\<close> is absent, or its last
  error message is the empty string, \<open>errorcheck\<close> returns \<open>expr\<close> unchanged; when the
  message is not empty it raises \<open>SWATError\<close> carrying the message decoded as UTF-8, whatever
  \<open>expr\<close> is.
\<close>

theorem errorcheck_protocol:
  "(obj = None \<longrightarrow> errorcheck a2u expr obj = Inr expr) \<and>
   (\<forall>h. obj = Some h \<and> getLastErrorMessage h = [] \<longrightarrow> errorcheck a2u expr obj = Inr expr) \<and>
   (\<forall>h. obj = Some h \<and> getLastErrorMessage h \<noteq> [] \<longrightarrow>
        errorcheck a2u expr obj = Inl (SWATError (a2u (getLastErrorMessage h) ''utf-8'')))"
  by (simp add: errorcheck_def)

theorem errorcheck_protocol_witness:
  "errorcheck (\<lambda>m enc. m) (42::int) None = Inr 42 \<and>
   errorcheck (\<lambda>m enc. m) (42::int) (Some \<lparr>getLastErrorMessage = ''''\<rparr>) = Inr 42 \<and>
   errorcheck (\<lambda>m enc. m) (42::int) (Some \<lparr>getLastErrorMessage = ''connection refused''\<rparr>)
     = Inl (SWATError ''connection refused'')"
  using errorcheck_protocol [of None "\<lambda>m enc. m" "42::int"]
        errorcheck_protocol [of "Some \<lparr>getLastErrorMessage = ''''\<rparr>" "\<lambda>m enc. m" "42::int"]
        errorcheck_protocol [of "Some \<lparr>getLastErrorMessage = ''connection refused''\<rparr>"
                                "\<lambda>m enc. m" "42::int"]
  by simp

text \<open>
  C2. After a failed load the six constructor forwarders raise the \<open>ValueError\<close> that points
  to the REST interface (\<open>forwarders_unavailable\<close>), and the import itself does not raise
  (\<open>import_failed_does_not_raise\<close>). \<open>InitializeTK\<close> does not: it never looks at
  \<open>_pyswat_loaded\<close>, and its first statement reads the name \<open>_pyswat\<close>, which the failed
  import left unbound. The call ends in a \<open>NameError\<close>, not in the \<open>ValueError\<close> of
  \<open>_pyswat_error\<close>, for every host, environment and argument list.
\<close>

theorem InitializeTK_after_failed_import:
  "import_clib (Inl ImportError) = Inr \<lparr>pyswat_loaded = False, pyswat = None\<rparr> \<and>
   InitializeTK \<lparr>pyswat_loaded = False, pyswat = None\<rparr> h env args kwargs
     = (Inl (NameError ''_pyswat''), env) \<and>
   fst (InitializeTK \<lparr>pyswat_loaded = False, pyswat = None\<rparr> h env args kwargs)
     \<noteq> Inl pyswat_error"
  by (simp add: import_clib_def InitializeTK_def lookup_pyswat_def pyswat_error_def)

text \<open>
  C6. On a machine whose name contains \<open>ppc\<close>, with \<open>TKPATH\<close> unset before the call:
  \<^item> off Windows, the environment after the call is the one before it, on every exit path:
    whatever the arguments are, whether the extension is loaded, and whether the native
    call returns or raises, \<open>TKPATH\<close> is absent again;
  \<^item> when the extension is loaded and the first positional argument is a string that
    \<open>os.environ\<close> takes, the native call runs with \<open>TKPATH\<close> set to that argument, and
    its outcome, result or exception, is the outcome of the call.

  On Windows, where the \<open>ppc\<close> patch does not apply, the native call runs in the unchanged
  environment and afterwards \<open>TKPATH\<close> is set to \<open>os.pathsep\<close> if it is unset.
\<close>

theorem InitializeTK_tkpath_scope:
  "(py_in ''ppc'' (machine h) \<and> env ''TKPATH'' = None \<and>
      \<not> startswith (lower (sys_platform h)) ''win'' \<longrightarrow>
    snd (InitializeTK g h env args kwargs) = env) \<and>
   (py_in ''ppc'' (machine h) \<and> env ''TKPATH'' = None \<and>
      \<not> startswith (lower (sys_platform h)) ''win'' \<and>
      pyswat g = Some m \<and> args = PyStr a # rest \<and> CHR 0x00 \<notin> set a \<longrightarrow>
    InitializeTK g h env args kwargs
      = (m ''InitializeTK'' args kwargs (env(''TKPATH'' \<mapsto> a)), env)) \<and>
   (startswith (lower (sys_platform h)) ''win'' \<and>
      \<not> (py_in ''ppc'' (machine h) \<and> env ''TKPATH'' = None) \<and> pyswat g = Some m \<longrightarrow>
    InitializeTK g h env args kwargs
      = (m ''InitializeTK'' args kwargs env,
         if env ''TKPATH'' = None then env(''TKPATH'' \<mapsto> pathsep h) else env))"
proof -
  have restore: "snd (InitializeTK g h env args kwargs) = env"
    if "py_in ''ppc'' (machine h)" "env ''TKPATH'' = None"
       "\<not> startswith (lower (sys_platform h)) ''win''"
    using that
    by (auto simp: InitializeTK_def lookup_pyswat_def environ_setitem_def environ_delitem_def
          Let_def split: option.splits pyval.splits sum.splits)
  have patch: "InitializeTK g h env args kwargs
                 = (m ''InitializeTK'' args kwargs (env(''TKPATH'' \<mapsto> a)), env)"
    if "py_in ''ppc'' (machine h)" "env ''TKPATH'' = None"
       "\<not> startswith (lower (sys_platform h)) ''win''"
       "pyswat g = Some m" "args = PyStr a # rest" "CHR 0x00 \<notin> set a"
    using that
    by (auto simp: InitializeTK_def lookup_pyswat_def environ_setitem_def environ_delitem_def)
  have windows: "InitializeTK g h env args kwargs
                   = (m ''InitializeTK'' args kwargs env,
                      if env ''TKPATH'' = None then env(''TKPATH'' \<mapsto> pathsep h) else env)"
    if "startswith (lower (sys_platform h)) ''win''"
       "\<not> (py_in ''ppc'' (machine h) \<and> env ''TKPATH'' = None)" "pyswat g = Some m"
    using that
    by (auto simp: InitializeTK_def lookup_pyswat_def)
  show ?thesis using restore patch windows by blast
qed

theorem InitializeTK_tkpath_scope_witness:
  "snd (InitializeTK
          \<lparr>pyswat_loaded = True,
           pyswat = Some (\<lambda>name args kwargs env. Inl (Foreign (the (env ''TKPATH''))))\<rparr>
          \<lparr>sys_platform = ''linux'', machine = ''ppc64le'', pathsep = '':''\<rparr>
          Map.empty [PyInt 7] []) = Map.empty \<and>
   InitializeTK
     \<lparr>pyswat_loaded = True,
      pyswat = Some (\<lambda>name args kwargs env. Inl (Foreign (the (env ''TKPATH''))))\<rparr>
     \<lparr>sys_platform = ''linux'', machine = ''ppc64le'', pathsep = '':''\<rparr>
     Map.empty [PyStr ''/opt/tk''] []
     = (Inl (Foreign ''/opt/tk''), Map.empty) \<and>
   InitializeTK
     \<lparr>pyswat_loaded = True, pyswat = Some (\<lambda>name args kwargs env. Inr PyNone)\<rparr>
     \<lparr>sys_platform = ''win32'', machine = ''AMD64'', pathsep = '';''\<rparr>
     Map.empty [PyStr ''C:/tk''] []
     = (Inr PyNone, [''TKPATH'' \<mapsto> '';''])"
  using InitializeTK_tkpath_scope
          [of "\<lparr>sys_platform = ''linux'', machine = ''ppc64le'', pathsep = '':''\<rparr>"
              Map.empty
              "\<lparr>pyswat_loaded = True,
                pyswat = Some (\<lambda>name args kwargs env. Inl (Foreign (the (env ''TKPATH''))))\<rparr>"
              "[PyInt 7]" "[]"
              "\<lambda>name args kwargs env. Inl (Foreign (the (env ''TKPATH'')))" "''x''" "[]"]
        InitializeTK_tkpath_scope
          [of "\<lparr>sys_platform = ''linux'', machine = ''ppc64le'', pathsep = '':''\<rparr>"
              Map.empty
              "\<lparr>pyswat_loaded = True,
                pyswat = Some (\<lambda>name args kwargs env. Inl (Foreign (the (env ''TKPATH''))))\<rparr>"
              "[PyStr ''/opt/tk'']" "[]"
              "\<lambda>name args kwargs env. Inl (Foreign (the (env ''TKPATH'')))" "''/opt/tk''" "[]"]
        InitializeTK_tkpath_scope
          [of "\<lparr>sys_platform = ''win32'', machine = ''AMD64'', pathsep = '';''\<rparr>"
              Map.empty
              "\<lparr>pyswat_loaded = True, pyswat = Some (\<lambda>name args kwargs env. Inr PyNone)\<rparr>"
              "[PyStr ''C:/tk'']" "[]"
              "\<lambda>name args kwargs env. Inr PyNone" "''C:/tk''" "[]"]
  by (simp add: startswith_def lower_def lower_char_def)

text \<open>
  C10. With the extension loaded, a call with no positional argument on a machine whose name
  contains \<open>ppc\<close>, with \<open>TKPATH\<close> unset, raises \<open>KeyError\<close> from the cleanup: the
  \<open>finally\<close> block deletes \<open>TKPATH\<close>, which was never set. This is so whatever the native
  call did, also when it returned a result, which the caller then never sees.
\<close>

theorem InitializeTK_no_args_KeyError:
  "pyswat g = Some m \<Longrightarrow> py_in ''ppc'' (machine h) \<Longrightarrow> env ''TKPATH'' = None \<Longrightarrow>
   InitializeTK g h env [] kwargs = (Inl (KeyError ''TKPATH''), env)"
  by (simp add: InitializeTK_def lookup_pyswat_def environ_delitem_def)

theorem InitializeTK_no_args_KeyError_witness:
  "InitializeTK
     \<lparr>pyswat_loaded = True, pyswat = Some (\<lambda>name args kwargs env. Inr (PyInt 0))\<rparr>
     \<lparr>sys_platform = ''linux'', machine = ''ppc64le'', pathsep = '':''\<rparr>
     Map.empty [] []
     = (Inl (KeyError ''TKPATH''), Map.empty)"
  using InitializeTK_no_args_KeyError
          [of "\<lparr>pyswat_loaded = True, pyswat = Some (\<lambda>name args kwargs env. Inr (PyInt 0))\<rparr>"
              "\<lambda>name args kwargs env. Inr (PyInt 0)"
              "\<lparr>sys_platform = ''linux'', machine = ''ppc64le'', pathsep = '':''\<rparr>"
              Map.empty "[]"]
  by (simp add: startswith_def)

section \<open>Properties of the build\<close>

subsection \<open>Auxiliary facts\<close>

lemma startswith_append: "startswith (p @ r) p"
  by (simp add: startswith_def)

lemma darwin_not_win: "startswith s ''darwin'' \<Longrightarrow> \<not> startswith s ''win''"
  by (cases s) (simp_all add: startswith_def)

lemma lower_win: "lower (''win'' @ r) = ''win'' @ lower r"
  by (simp add: lower_def lower_char_def)

lemma lower_darwin: "lower (''darwin'' @ r) = ''darwin'' @ lower r"
  by (simp add: lower_def lower_char_def)

lemma re_dot_Some: "re_dot s = Some r \<longleftrightarrow> s = CHR ''.'' # r"
  by (cases s) (auto simp: re_dot_def)

lemma takeWhile_ne: "takeWhile P xs \<noteq> [] \<longleftrightarrow> (\<exists>y ys. xs = y # ys \<and> P y)"
  by (cases xs) auto

lemma re_match_unfold:
  "re_match_version s \<longleftrightarrow>
     (\<exists>r2. takeWhile is_digit s \<noteq> [] \<and> dropWhile is_digit s = CHR ''.'' # r2 \<and> takeWhile is_digit r2 \<noteq> [])"
  unfolding re_match_version_def
  by (simp add: re_digits_def re_dot_Some split: option.splits) (metis re_dot_Some option.exhaust option.distinct(1))

lemma check_call_events:
  "events (snd (check_call h cmd cwd env w)) = events w @ [Call cmd cwd (os_environ h ++ env)]"
  by (simp add: check_call_def Let_def split: proc_status.splits)

lemma swallow_snd:
  "(case x of (Inl e, w') \<Rightarrow> w' | (Inr u, w') \<Rightarrow> w') = snd x"
  by (cases x) (simp split: sum.splits)

lemma fetch_events:
  "events (fetch h cmd p env w) =
     events w @ [Call cmd p (os_environ h ++ env), Call cmd p (os_environ h ++ env)]"
  by (simp add: fetch_def Let_def swallow_snd check_call_events case_prod_beta)

lemma apply_effect_name: "node_name (apply_effect f n) = node_name n"
  by (cases n) simp_all

lemma apply_effect_id: "apply_effect (\<lambda>nm cs. cs) n = n"
  by (cases n) simp_all

lemma apply_effect_comp: "apply_effect g (apply_effect f n) = apply_effect (\<lambda>nm cs. g nm (f nm cs)) n"
  by (cases n) simp_all

lemma reshaped_refl: "reshaped fsy fsy"
proof -
  have "map (apply_effect (\<lambda>nm cs. cs)) fsy = fsy"
    by (induction fsy) (simp_all add: apply_effect_id)
  then show ?thesis unfolding reshaped_def by metis
qed

lemma reshaped_trans: "reshaped a b \<Longrightarrow> reshaped b c \<Longrightarrow> reshaped a c"
  unfolding reshaped_def by (auto simp: apply_effect_comp)

lemma reshaped_names: "reshaped a b \<Longrightarrow> map node_name b = map node_name a"
  unfolding reshaped_def by (auto simp: apply_effect_name)

lemma reshaped_head:
  assumes "reshaped (Dir t ro busy cs # rest) fsy"
  obtains cs1 rest1 where "fsy = Dir t ro busy cs1 # rest1" "reshaped rest rest1"
  using assms unfolding reshaped_def by auto

lemma err_unlink:
  "err (os_unlink k pro) (File nm ro busy) exc =
     (if removable k pro (File nm ro busy) then (None, None)
      else (Some (PermissionError nm), Some (File nm False busy)))"
  by (cases k) (simp_all add: err_def os_unlink_def can_remove_def)

lemma rmtree_node_file:
  "rmtree_node k err pro (File nm ro busy) =
     (if removable k pro (File nm ro busy) then (None, None)
      else (Some (PermissionError nm), Some (File nm False busy)))"
  by (cases k) (simp_all add: err_def os_unlink_def can_remove_def)

lemma rmdir_empty_err:
  "(case os_rmdir k pro (Dir nm ro busy []) of
      None \<Rightarrow> (None, None)
    | Some exc \<Rightarrow> err (os_rmdir k pro) (Dir nm ro busy []) exc) =
     (if \<not> busy \<and> (k = Windows \<or> \<not> pro) then (None, None)
      else (Some (PermissionError nm), Some (Dir nm False busy [])))"
  by (cases k) (simp_all add: err_def os_rmdir_def can_remove_def)

lemma rmtree_entries_err:
  assumes "\<And>n pro. n \<in> set ns \<Longrightarrow>
             (removable k pro n \<longrightarrow> rmtree_node k err pro n = (None, None)) \<and>
             (\<not> removable k pro n \<longrightarrow> (\<exists>e n1. rmtree_node k err pro n = (Some e, Some n1)))"
  shows "(removable_all k dro ns \<longrightarrow> rmtree_entries k err dro ns = (None, [])) \<and>
         (\<not> removable_all k dro ns \<longrightarrow>
            (\<exists>e ns1. rmtree_entries k err dro ns = (Some e, ns1) \<and> ns1 \<noteq> []))"
  using assms
proof (induction ns)
  case Nil
  then show ?case by simp
next
  case (Cons n ns)
  have n: "(removable k dro n \<longrightarrow> rmtree_node k err dro n = (None, None)) \<and>
           (\<not> removable k dro n \<longrightarrow> (\<exists>e n1. rmtree_node k err dro n = (Some e, Some n1)))"
    using Cons.prems by simp
  have ih: "(removable_all k dro ns \<longrightarrow> rmtree_entries k err dro ns = (None, [])) \<and>
         (\<not> removable_all k dro ns \<longrightarrow>
            (\<exists>e ns1. rmtree_entries k err dro ns = (Some e, ns1) \<and> ns1 \<noteq> []))"
    using Cons.IH Cons.prems by simp
  show ?case
  proof (cases "removable k dro n")
    case False
    with n show ?thesis by auto
  next
    case True
    with n ih show ?thesis by (cases "removable_all k dro ns") auto
  qed
qed

lemma rmtree_node_err:
  "(removable k pro n \<longrightarrow> rmtree_node k err pro n = (None, None)) \<and>
   (\<not> removable k pro n \<longrightarrow> (\<exists>e n1. rmtree_node k err pro n = (Some e, Some n1)))"
proof (induction n arbitrary: pro)
  case (File nm ro busy)
  show ?case unfolding rmtree_node_file by simp
next
  case (Dir nm ro busy cs)
  have e: "(removable_all k ro cs \<longrightarrow> rmtree_entries k err ro cs = (None, [])) \<and>
         (\<not> removable_all k ro cs \<longrightarrow>
            (\<exists>e ns1. rmtree_entries k err ro cs = (Some e, ns1) \<and> ns1 \<noteq> []))"
    by (rule rmtree_entries_err) (rule Dir.IH)
  show ?case
  proof (cases "removable_all k ro cs")
    case True
    with e have "rmtree_entries k err ro cs = (None, [])" by simp
    then show ?thesis using True by (simp add: rmdir_empty_err)
  next
    case False
    with e show ?thesis by auto
  qed
qed

lemma rmtree_node_left_name:
  "rmtree_node k err pro n = (e, Some n1) \<Longrightarrow> node_name n1 = node_name n"
  by (cases n) (auto simp: err_def Let_def split: option.splits prod.splits if_splits)


lemma rmtree_head:
  "rmtree k d err (Dir d ro busy cs # rest) =
     (case rmtree_node k err False (Dir d ro busy cs) of
        (e, left) \<Rightarrow> (e, (case left of None \<Rightarrow> rest | Some n1 \<Rightarrow> n1 # rest)))"
  by simp

lemma reshaped_map: "reshaped fsy (map (apply_effect f) fsy)"
  unfolding reshaped_def by blast

lemma check_call_fs: "reshaped (fs w) (fs (snd (check_call h cmd cwd env w)))"
  by (simp add: check_call_def Let_def reshaped_refl reshaped_map split: proc_status.splits)

lemma makedirs_fs: "reshaped (fs w) (fs (makedirs d leaf p w))"
  by (simp add: makedirs_def reshaped_map)

lemma fetch_fs: "reshaped (fs w) (fs (fetch h cmd p env w))"
  unfolding fetch_def Let_def swallow_snd
  by (rule reshaped_trans [OF check_call_fs check_call_fs])

lemma tmpdir_release:
  assumes "body (mkdtemp h) ext (w\<lparr>events := events w @ [Mkdtemp (mkdtemp h)],
                                   fs := Dir (mkdtemp h) False False [] # fs w\<rparr>) = (r, ext1, w2)"
    and "fs w2 = Dir (mkdtemp h) ro busy cs # rest"
  shows "removable (fs_kind h) False (Dir (mkdtemp h) ro busy cs) \<Longrightarrow>
           tmpdir h body ext w
             = (r, ext1, w2\<lparr>events := events w2 @ [Rmtree (mkdtemp h)], fs := rest\<rparr>)"
    and "\<not> removable (fs_kind h) False (Dir (mkdtemp h) ro busy cs) \<Longrightarrow>
           \<exists>exc n1. node_name n1 = mkdtemp h \<and>
             tmpdir h body ext w
               = (Inl exc, ext1, w2\<lparr>events := events w2 @ [Rmtree (mkdtemp h)], fs := n1 # rest\<rparr>)"
proof -
  let ?n = "Dir (mkdtemp h) ro busy cs"
  have t: "tmpdir h body ext w =
     (case rmtree_node (fs_kind h) err False ?n of
        (Some exc, left) \<Rightarrow>
          (Inl exc, ext1, w2\<lparr>events := events w2 @ [Rmtree (mkdtemp h)],
                              fs := (case left of None \<Rightarrow> rest | Some n1 \<Rightarrow> n1 # rest)\<rparr>)
      | (None, left) \<Rightarrow>
          (r, ext1, w2\<lparr>events := events w2 @ [Rmtree (mkdtemp h)],
                          fs := (case left of None \<Rightarrow> rest | Some n1 \<Rightarrow> n1 # rest)\<rparr>))"
    unfolding tmpdir_def Let_def assms(1)
    by (simp add: assms(2) split: prod.splits option.splits)
  {
    assume "removable (fs_kind h) False ?n"
    with rmtree_node_err [of "fs_kind h" False ?n]
    have "rmtree_node (fs_kind h) err False ?n = (None, None)" by blast
    then show "tmpdir h body ext w
             = (r, ext1, w2\<lparr>events := events w2 @ [Rmtree (mkdtemp h)], fs := rest\<rparr>)"
      unfolding t by simp
  }
  {
    assume "\<not> removable (fs_kind h) False ?n"
    with rmtree_node_err [of "fs_kind h" False ?n]
    obtain e n1 where l: "rmtree_node (fs_kind h) err False ?n = (Some e, Some n1)" by blast
    from rmtree_node_left_name [OF l] have "node_name n1 = mkdtemp h" by simp
    then show "\<exists>exc n1. node_name n1 = mkdtemp h \<and>
             tmpdir h body ext w
               = (Inl exc, ext1, w2\<lparr>events := events w2 @ [Rmtree (mkdtemp h)], fs := n1 # rest\<rparr>)"
      unfolding t l by auto
  }
qed

lemma check_call_cases:
  obtains (ok) w' where "check_call h cmd cwd env w = (Inr (), w')"
      "events w' = events w @ [Call cmd cwd (os_environ h ++ env)]"
      "reshaped (fs w) (fs w')"
  | (fail) e w' where "check_call h cmd cwd env w = (Inl e, w')"
      "events w' = events w @ [Call cmd cwd (os_environ h ++ env)]"
      "reshaped (fs w) (fs w')"
proof (cases "check_call h cmd cwd env w")
  case (Pair r w')
  have ev: "events w' = events w @ [Call cmd cwd (os_environ h ++ env)]"
    using check_call_events [of h cmd cwd env w] Pair by simp
  have rs: "reshaped (fs w) (fs w')"
    using check_call_fs [of w h cmd cwd env] Pair by simp
  show ?thesis
  proof (cases r)
    case (Inl e)
    with Pair ev rs show ?thesis by (intro fail) simp_all
  next
    case (Inr u)
    with Pair ev rs show ?thesis by (intro ok) simp_all
  qed
qed

lemma go_get_ne_swig: "go_get_cmd h r \<noteq> swig_cmd h a b"
  by (simp add: go_get_cmd_def swig_cmd_def)

lemma go_get_ne_build: "go_get_cmd h r \<noteq> go_build_cmd h a"
  by (simp add: go_get_cmd_def go_build_cmd_def)

lemma go_get_ne_link: "go_get_cmd h r \<noteq> win_link_cmd h e"
  by (simp add: go_get_cmd_def win_link_cmd_def Let_def)

lemma build_body_events:
  fixes h platform tempdir
  defines "root \<equiv> environ_get (os_environ h) ''LIBSWAT_ROOT'' LIBSWAT_ROOT"
  defines "src \<equiv> path_join h tempdir ''src''"
  defines "rootp \<equiv> (if platform = ''win'' then path_join h src (replace_slash root)
                      else path_join h src root)"
  defines "genv \<equiv> os_environ h ++ [''GOPATH'' \<mapsto> tempdir, ''GO111MODULE'' \<mapsto> ''auto'']"
  defines "senv \<equiv> os_environ h ++
                     osx_env h platform [''GOPATH'' \<mapsto> tempdir, ''GO111MODULE'' \<mapsto> ''auto'']"
  shows "(\<exists>rest. events (snd (snd (build_body h platform tempdir ext w))) =
           events w @
           [Makedirs src,
            Call (go_get_cmd h root) src genv,
            Call (go_get_cmd h root) src genv,
            Call (swig_cmd h src rootp) rootp senv] @ rest \<and>
           list_all (tail_event (go_get_cmd h root)) rest) \<and>
         reshaped (fs w) (fs (snd (snd (build_body h platform tempdir ext w))))"
proof -
  let ?env = "[''GOPATH'' \<mapsto> tempdir, ''GO111MODULE'' \<mapsto> ''auto'']"
  let ?w2 = "fetch h (go_get_cmd h root) src ?env (makedirs tempdir ''src'' src w)"
  let ?pre = "events w @ [Makedirs src, Call (go_get_cmd h root) src genv,
                Call (go_get_cmd h root) src genv]"
  have ev2: "events ?w2 = ?pre"
    by (simp add: fetch_events makedirs_def genv_def)
  have rs2: "reshaped (fs w) (fs ?w2)"
    by (rule reshaped_trans [OF makedirs_fs fetch_fs])
  let ?liba = "path_join h src ''libswat.a''"
  let ?ext1 = "ext\<lparr>sources := sources ext @ [path_join h src ''pyswat.c'']\<rparr>"
  let ?ext2 = "link_prepare rootp ?liba ?ext1"
  let ?env1 = "osx_env h platform ?env"
  have body: "build_body h platform tempdir ext w =
     (case check_call h (swig_cmd h src rootp) rootp ?env1 ?w2 of
           (Inl e, w3) \<Rightarrow> (Inl e, ext, w3)
         | (Inr u, w3) \<Rightarrow>
             (case check_call h (go_build_cmd h ?liba) rootp ?env1 w3 of
                    (Inl e, w4) \<Rightarrow> (Inl e, ?ext1, w4)
                  | (Inr u, w4) \<Rightarrow>
                      (if platform = ''win''
                          then (case check_call h (win_link_cmd h ?ext2) (getcwd h) ?env1 w4 of
                                  (r, w5) \<Rightarrow> (r, ?ext2, w5))
                          else build_ext_build_extension h ?ext2 w4)))"
    unfolding build_body_def Let_def root_def src_def rootp_def by (rule refl)
  show ?thesis
  proof (cases rule: check_call_cases [of h "swig_cmd h src rootp" rootp ?env1 ?w2])
    case (fail e w3)
    have rs3: "reshaped (fs w) (fs w3)" by (rule reshaped_trans [OF rs2 fail(3)])
    from fail(1,2) show ?thesis
      unfolding body by (simp add: ev2 senv_def rs3)
  next
    case swig: (ok w3)
    have rs3: "reshaped (fs w) (fs w3)" by (rule reshaped_trans [OF rs2 swig(3)])
    show ?thesis
    proof (cases rule: check_call_cases [of h "go_build_cmd h ?liba" rootp ?env1 w3])
      case (fail e w4)
      have rs4: "reshaped (fs w) (fs w4)" by (rule reshaped_trans [OF rs3 fail(3)])
      from swig(1,2) fail(1,2) show ?thesis
        unfolding body by (simp add: ev2 senv_def tail_event_def go_get_ne_build [symmetric] rs4)
    next
      case build: (ok w4)
      have rs4: "reshaped (fs w) (fs w4)" by (rule reshaped_trans [OF rs3 build(3)])
      show ?thesis
      proof (cases "platform = ''win''")
        case True
        show ?thesis
        proof (cases "check_call h (win_link_cmd h ?ext2) (getcwd h) ?env1 w4")
          case (Pair r w5)
          have "events w5 = events w4 @ [Call (win_link_cmd h ?ext2) (getcwd h) senv]"
            using check_call_events [of h "win_link_cmd h ?ext2" "getcwd h" ?env1 w4] Pair
            by (simp add: senv_def)
          moreover have "reshaped (fs w) (fs w5)"
            using reshaped_trans [OF rs4 check_call_fs [of w4 h "win_link_cmd h ?ext2" "getcwd h" ?env1]]
              Pair by simp
          ultimately show ?thesis
            using swig(1,2) build(1,2) True Pair
            unfolding body
            by (simp add: ev2 senv_def tail_event_def go_get_ne_build [symmetric]
                  go_get_ne_link [symmetric])
        qed
      next
        case False
        with swig(1,2) build(1,2) show ?thesis
          unfolding body
          by (simp add: ev2 senv_def tail_event_def go_get_ne_build [symmetric]
                build_ext_build_extension_def rs4)
      qed
    qed
  qed
qed

lemma tmpdir_build_body:
  obtains r ext' w' rest where
    "tmpdir h (build_body h (classify (sys_platform h))) ext w = (r, ext', w')"
    "events w' = events w @ drop 2 (staged_events h) @ rest @ [Rmtree (mkdtemp h)]"
    "list_all (tail_event (go_get_cmd h (environ_get (os_environ h) ''LIBSWAT_ROOT'' LIBSWAT_ROOT))) rest"
    "map node_name (fs w') = map node_name (fs w) \<or>
     (\<exists>exc. r = Inl exc) \<and> map node_name (fs w') = mkdtemp h # map node_name (fs w)"
proof -
  let ?t = "mkdtemp h"
  let ?w1 = "w\<lparr>events := events w @ [Mkdtemp ?t], fs := Dir ?t False False [] # fs w\<rparr>"
  let ?b = "build_body h (classify (sys_platform h)) ?t ext ?w1"
  obtain r ext1 w2 where b: "?b = (r, ext1, w2)" by (cases ?b)
  from build_body_events [of h "classify (sys_platform h)" ?t ext ?w1] b
  obtain rest where ev: "events w2 = events w @ drop 2 (staged_events h) @ rest"
    and tl: "list_all (tail_event (go_get_cmd h (environ_get (os_environ h) ''LIBSWAT_ROOT'' LIBSWAT_ROOT))) rest"
    and rs: "reshaped (Dir ?t False False [] # fs w) (fs w2)"
    by (auto simp: staged_events_def Let_def)
  from rs obtain cs rest1 where f2: "fs w2 = Dir ?t False False cs # rest1"
    and rs1: "reshaped (fs w) rest1"
    by (rule reshaped_head)
  have nm: "map node_name rest1 = map node_name (fs w)"
    by (rule reshaped_names [OF rs1])
  show ?thesis
  proof (cases "removable (fs_kind h) False (Dir ?t False False cs)")
    case True
    let ?w3 = "w2\<lparr>events := events w2 @ [Rmtree ?t], fs := rest1\<rparr>"
    have "tmpdir h (build_body h (classify (sys_platform h))) ext w = (r, ext1, ?w3)"
      by (rule tmpdir_release(1)
                 [where body = "build_body h (classify (sys_platform h))", OF b f2 True])
    moreover have "events ?w3 = events w @ drop 2 (staged_events h) @ rest @ [Rmtree ?t]"
      using ev by simp
    moreover have "map node_name (fs ?w3) = map node_name (fs w)"
      using nm by simp
    ultimately show ?thesis using tl that by blast
  next
    case False
    from tmpdir_release(2)
           [where body = "build_body h (classify (sys_platform h))", OF b f2 False]
    obtain exc n1 where n1: "node_name n1 = ?t"
      and t: "tmpdir h (build_body h (classify (sys_platform h))) ext w
                = (Inl exc, ext1, w2\<lparr>events := events w2 @ [Rmtree ?t], fs := n1 # rest1\<rparr>)"
      by blast
    let ?w3 = "w2\<lparr>events := events w2 @ [Rmtree ?t], fs := n1 # rest1\<rparr>"
    have e3: "events ?w3 = events w @ drop 2 (staged_events h) @ rest @ [Rmtree ?t]"
      using ev by simp
    show ?thesis by (rule that [OF t e3 tl]) (simp add: nm n1)
  qed
qed

lemma build_extension_cases:
  obtains
    (no_stage) e w' where
      "\<not> probes_ok h w"
      "build_extension h ext w = (Inl e, ext, w')"
      "new_events w w' = [Call [''go'', ''version''] (getcwd h) (os_environ h)] \<or>
       new_events w w' = [Call [''go'', ''version''] (getcwd h) (os_environ h),
                          Call [''swig'', ''-version''] (getcwd h) (os_environ h)]"
      "map node_name (fs w') = map node_name (fs w)"
  | (staged) r ext' w' rest where
      "probes_ok h w"
      "build_extension h ext w = (r, ext', w')"
      "new_events w w' = staged_events h @ rest @ [Rmtree (mkdtemp h)]"
      "list_all (tail_event (go_get_cmd h (environ_get (os_environ h) ''LIBSWAT_ROOT'' LIBSWAT_ROOT))) rest"
      "map node_name (fs w') = map node_name (fs w) \<or>
       (\<exists>exc. r = Inl exc) \<and> map node_name (fs w') = mkdtemp h # map node_name (fs w)"
proof (cases rule: check_call_cases [of h "[''go'', ''version'']" "getcwd h" Map.empty w])
  case (fail e w1)
  have "\<not> probes_ok h w" using fail(1) by (simp add: probes_ok_def)
  moreover have "\<exists>e'. build_extension h ext w = (Inl e', ext, w1)"
    using fail(1) by (cases e) (simp_all add: build_extension_def)
  moreover have "new_events w w1 = [Call [''go'', ''version''] (getcwd h) (os_environ h)]"
    using fail(2) by (simp add: new_events_def)
  moreover have "map node_name (fs w1) = map node_name (fs w)"
    by (rule reshaped_names [OF fail(3)])
  ultimately show ?thesis using no_stage by blast
next
  case go: (ok w1)
  have n1: "map node_name (fs w1) = map node_name (fs w)"
    by (rule reshaped_names [OF go(3)])
  show ?thesis
  proof (cases rule: check_call_cases [of h "[''swig'', ''-version'']" "getcwd h" Map.empty w1])
    case (fail e w2)
    have "\<not> probes_ok h w" using go(1) fail(1) by (simp add: probes_ok_def)
    moreover have "\<exists>e'. build_extension h ext w = (Inl e', ext, w2)"
      using go(1) fail(1) by (cases e) (simp_all add: build_extension_def)
    moreover have "new_events w w2 = [Call [''go'', ''version''] (getcwd h) (os_environ h),
                                       Call [''swig'', ''-version''] (getcwd h) (os_environ h)]"
      using go(2) fail(2) by (simp add: new_events_def)
    moreover have "map node_name (fs w2) = map node_name (fs w)"
      using reshaped_names [OF fail(3)] n1 by simp
    ultimately show ?thesis using no_stage by blast
  next
    case swig: (ok w2)
    have n2: "map node_name (fs w2) = map node_name (fs w)"
      using reshaped_names [OF swig(3)] n1 by simp
    have p: "probes_ok h w" using go(1) swig(1) by (simp add: probes_ok_def)
    obtain r ext' w' rest where
      t: "tmpdir h (build_body h (classify (sys_platform h))) ext w2 = (r, ext', w')"
      and ev: "events w' = events w2 @ drop 2 (staged_events h) @ rest @ [Rmtree (mkdtemp h)]"
      and tl: "list_all (tail_event (go_get_cmd h (environ_get (os_environ h) ''LIBSWAT_ROOT'' LIBSWAT_ROOT))) rest"
      and fsx: "map node_name (fs w') = map node_name (fs w2) \<or>
                (\<exists>exc. r = Inl exc) \<and> map node_name (fs w') = mkdtemp h # map node_name (fs w2)"
      by (rule tmpdir_build_body)
    have b: "build_extension h ext w = (r, ext', w')"
      using go(1) swig(1) t by (simp add: build_extension_def)
    have "events w2 = events w @ take 2 (staged_events h)"
      using go(2) swig(2) by (simp add: staged_events_def Let_def)
    with ev have "events w' = events w @ staged_events h @ rest @ [Rmtree (mkdtemp h)]"
      by (simp add: staged_events_def Let_def)
    then have "new_events w w' = staged_events h @ rest @ [Rmtree (mkdtemp h)]"
      by (simp add: new_events_def)
    with p b tl fsx n2 show ?thesis using staged by simp
  qed
qed

lemma re_match_version_shape:
  "re_match_version s \<longleftrightarrow>
     (\<exists>ds d rest. s = ds @ CHR ''.'' # d # rest \<and> ds \<noteq> [] \<and> list_all is_digit ds \<and> is_digit d)"
proof
  assume "re_match_version s"
  then obtain r2 where ne: "takeWhile is_digit s \<noteq> []"
    and dw: "dropWhile is_digit s = CHR ''.'' # r2"
    and r2: "takeWhile is_digit r2 \<noteq> []"
    unfolding re_match_unfold by blast
  from r2 obtain d rest where d: "r2 = d # rest" "is_digit d"
    unfolding takeWhile_ne by blast
  have "s = takeWhile is_digit s @ dropWhile is_digit s" by simp
  then have "s = takeWhile is_digit s @ CHR ''.'' # d # rest"
    unfolding dw d .
  moreover have "list_all is_digit (takeWhile is_digit s)"
    unfolding list_all_iff by (blast dest: set_takeWhileD)
  ultimately show "\<exists>ds d rest. s = ds @ CHR ''.'' # d # rest \<and> ds \<noteq> [] \<and>
                     list_all is_digit ds \<and> is_digit d"
    using ne d(2) by blast
next
  assume "\<exists>ds d rest. s = ds @ CHR ''.'' # d # rest \<and> ds \<noteq> [] \<and>
            list_all is_digit ds \<and> is_digit d"
  then obtain ds d rest where s: "s = ds @ CHR ''.'' # d # rest" and ne: "ds \<noteq> []"
    and ds: "list_all is_digit ds" and d: "is_digit d"
    by blast
  have nd: "\<not> is_digit CHR ''.''" by (simp add: is_digit_def)
  from ds have all: "\<And>x. x \<in> set ds \<Longrightarrow> is_digit x" by (simp add: list_all_iff)
  have tw: "takeWhile is_digit s = ds"
    unfolding s using nd by (simp add: takeWhile_append2 [OF all])
  have dw: "dropWhile is_digit s = CHR ''.'' # d # rest"
    unfolding s using nd by (simp add: dropWhile_append2 [OF all])
  show "re_match_version s"
    unfolding re_match_unfold tw dw using ne d by simp
qed

text \<open>
  A field of the exact form, digits, one dot, digits, is matched: the two readings differ
  only on fields that go on after the minor number.
\<close>

lemma split_on_nonempty: "split_on sep cur s \<noteq> []"
  by (induction s arbitrary: cur) auto

lemma split_on_single:
  "split_on sep cur s = [b] \<Longrightarrow> b = cur @ s"
proof (induction s arbitrary: cur)
  case Nil
  then show ?case by simp
next
  case (Cons c cs)
  show ?case
  proof (cases "c = sep")
    case True
    with Cons.prems split_on_nonempty [of sep "[]" cs] show ?thesis by simp
  next
    case False
    with Cons.prems have "split_on sep (cur @ [c]) cs = [b]" by simp
    from Cons.IH [OF this] show ?thesis by simp
  qed
qed

lemma split_on_pair:
  "split_on sep cur s = [a, b] \<Longrightarrow> cur @ s = a @ sep # b"
proof (induction s arbitrary: cur)
  case Nil
  then show ?case by simp
next
  case (Cons c cs)
  show ?case
  proof (cases "c = sep")
    case True
    with Cons.prems have "a = cur" and "split_on sep [] cs = [b]" by simp_all
    with split_on_single [of sep "[]" cs b] True show ?thesis by simp
  next
    case False
    with Cons.prems have "split_on sep (cur @ [c]) cs = [a, b]" by simp
    from Cons.IH [OF this] show ?thesis by simp
  qed
qed

lemma exact_version_is_matched:
  assumes "spec_major_minor s"
  shows "re_match_version s"
proof -
  from assms obtain a b where sp: "split_on CHR ''.'' [] s = [a, b]"
    and a: "a \<noteq> []" "list_all is_digit a" and b: "b \<noteq> []" "list_all is_digit b"
    by (auto simp: spec_major_minor_def split: list.splits)
  from split_on_pair [OF sp] have s: "s = a @ CHR ''.'' # b" by simp
  from b obtain d rest where d: "b = d # rest" "is_digit d" by (cases b) auto
  show ?thesis
    unfolding re_match_version_shape using s a d by blast
qed

lemma tail_rest:
  assumes "list_all (tail_event c) rest"
  shows "filter is_mkdtemp rest = []" and "filter is_rmtree rest = []"
    and "filter (is_call_of c) rest = []" and "Mkdtemp d \<notin> set rest"
    and "count_list rest (Rmtree d) = 0"
proof -
  have a: "\<And>e. e \<in> set rest \<Longrightarrow> tail_event c e"
    using assms by (simp add: list_all_iff)
  have b: "\<And>e. tail_event c e \<Longrightarrow>
             \<not> is_mkdtemp e \<and> \<not> is_rmtree e \<and> \<not> is_call_of c e \<and> e \<noteq> Mkdtemp d \<and> e \<noteq> Rmtree d"
    by (simp add: tail_event_def is_mkdtemp_def is_rmtree_def is_call_of_def split: event.splits)
  show "filter is_mkdtemp rest = []" using a b by (auto simp: filter_empty_conv)
  show "filter is_rmtree rest = []" using a b by (auto simp: filter_empty_conv)
  show "filter (is_call_of c) rest = []" using a b by (auto simp: filter_empty_conv)
  show "Mkdtemp d \<notin> set rest" using a b by blast
  have "Rmtree d \<notin> set rest" using a b by blast
  then show "count_list rest (Rmtree d) = 0" by (simp add: count_list_0_iff)
qed

lemma probe_ne_go_get:
  "[''go'', ''version''] \<noteq> go_get_cmd h r" "[''swig'', ''-version''] \<noteq> go_get_cmd h r"
  by (simp_all add: go_get_cmd_def)

lemma staged_events_filters:
  "filter is_mkdtemp (staged_events h) = [Mkdtemp (mkdtemp h)]"
  "filter is_rmtree (staged_events h) = []"
  "count_list (staged_events h) (Rmtree d) = 0"
  "length (staged_events h) = 7"
  "Mkdtemp d \<in> set (staged_events h) \<longleftrightarrow> d = mkdtemp h"
  by (auto simp: staged_events_def Let_def is_mkdtemp_def is_rmtree_def)

lemma staged_events_fetches:
  "length (filter (is_call_of (go_get_cmd h (environ_get (os_environ h) ''LIBSWAT_ROOT'' LIBSWAT_ROOT)))
            (staged_events h)) = 2"
  by (simp add: staged_events_def Let_def is_call_of_def probe_ne_go_get
        go_get_ne_swig [symmetric])

text \<open>
  A toolchain probe that exits with a status other than zero ends the build with the
  \<open>RuntimeError\<close> that says where to get the tool, right after the probe and before any
  workspace is made.
\<close>

lemma go_probe_nonzero_exit:
  assumes "status (run h (events w) [''go'', ''version''] (getcwd h) (os_environ h)) = Exited (Suc n)"
  shows "fst (build_extension h ext w) = Inl go_missing"
    and "new_events w (snd (snd (build_extension h ext w)))
           = [Call [''go'', ''version''] (getcwd h) (os_environ h)]"
  using assms by (simp_all add: build_extension_def check_call_def Let_def new_events_def)

lemma swig_probe_nonzero_exit:
  assumes "status (run h (events w) [''go'', ''version''] (getcwd h) (os_environ h)) = Exited 0"
    and "status (run h (events w @ [Call [''go'', ''version''] (getcwd h) (os_environ h)])
                   [''swig'', ''-version''] (getcwd h) (os_environ h)) = Exited (Suc n)"
  shows "fst (build_extension h ext w) = Inl swig_missing"
    and "new_events w (snd (snd (build_extension h ext w)))
           = [Call [''go'', ''version''] (getcwd h) (os_environ h),
              Call [''swig'', ''-version''] (getcwd h) (os_environ h)]"
  using assms by (simp_all add: build_extension_def check_call_def Let_def new_events_def)

lemma link_prepare_include_dirs:
  "include_dirs (link_prepare r a e) =
     (if r \<in> set (include_dirs e) then include_dirs e else include_dirs e @ [r])"
  by (simp add: link_prepare_def Let_def)

lemma link_prepare_extra_link_args:
  "extra_link_args (link_prepare r a e) =
     (if a \<in> set (extra_link_args e) then extra_link_args e else extra_link_args e @ [a])"
  by (simp add: link_prepare_def Let_def)

lemma link_prepare_extra_compile_args:
  "extra_compile_args (link_prepare r a e) =
     extra_compile_args e @
     [''-Wno-unused-variable'', ''-Wno-unused-label'', ''-Wno-unused-function'',
      ''-Wno-visibility'', ''-Wno-strict-prototypes'']"
  by (simp add: link_prepare_def Let_def)

lemma py_split_defaults:
  "py_split h GO_GET_FLAGS = [''-insecure'']"
  "py_split h GO_BUILD_FLAGS = []"
  by (simp_all add: py_split_def is_plain_def GO_GET_FLAGS_def GO_BUILD_FLAGS_def is_space_def
        Let_def)

lemmas example_simps =
  build_extension_def check_call_def example_host_def example_run_def modcache_run_def
  run_leaving_def leave_def no_effect_def Let_def
  tmpdir_def build_body_def classify_def lower_def lower_char_def startswith_def
  environ_get_def LIBSWAT_ROOT_def posix_join_def makedirs_def fetch_def go_get_cmd_def
  py_split_defaults osx_env_def swig_cmd_def go_build_cmd_def
  example_ext_def empty_world_def fs_kind_def err_def os_unlink_def os_rmdir_def
  can_remove_def build_ext_build_extension_def link_prepare_def probes_ok_def
  new_events_def

subsection \<open>The claims\<close>

text \<open>
  C3, as stated, fails on a host where every command succeeds: the first fetch succeeds,
  the whole build returns normally, and the fetch command has been invoked twice, not once.
\<close>

theorem fetch_once_counterexample:
  "fst (build_extension (example_host (example_run (Exited 0) (Exited 0) (Exited 0))
                           Map.empty ''linux'') example_ext empty_world) = Inr () \<and>
   length (filter (is_call_of [''go'', ''get'', ''-d'', ''-insecure'', LIBSWAT_ROOT])
             (events (snd (snd (build_extension
                (example_host (example_run (Exited 0) (Exited 0) (Exited 0))
                   Map.empty ''linux'') example_ext empty_world))))) = 2"
  by (simp add: example_simps is_call_of_def)

text \<open>
  C3, amended. When both toolchain probes pass, the fetch command is invoked exactly
  twice, with the same command line, working directory and environment, whatever the
  outcome of either invocation; neither outcome stops the build, and the next step, the
  generator, is invoked right after the second fetch.
\<close>

theorem fetch_invoked_twice:
  "probes_ok h w \<Longrightarrow>
   take 7 (new_events w (snd (snd (build_extension h ext w)))) = staged_events h \<and>
   length (filter (is_call_of (go_get_cmd h (environ_get (os_environ h) ''LIBSWAT_ROOT'' LIBSWAT_ROOT)))
             (new_events w (snd (snd (build_extension h ext w))))) = 2"
proof (cases rule: build_extension_cases [of h w ext])
  case (no_stage e w')
  assume "probes_ok h w"
  with no_stage(1) show ?thesis by simp
next
  case (staged r ext' w' rest)
  then show ?thesis
    by (simp add: staged_events_filters staged_events_fetches tail_rest is_call_of_def)
qed

theorem fetch_invoked_twice_witness:
  "take 7 (new_events empty_world (snd (snd (build_extension
      (example_host (example_run (Exited 0) (Exited 1) (Exited 0)) Map.empty ''linux'')
      example_ext empty_world))))
     = staged_events (example_host (example_run (Exited 0) (Exited 1) (Exited 0)) Map.empty ''linux'') \<and>
   length (filter (is_call_of (go_get_cmd
        (example_host (example_run (Exited 0) (Exited 1) (Exited 0)) Map.empty ''linux'')
        (environ_get (os_environ
           (example_host (example_run (Exited 0) (Exited 1) (Exited 0)) Map.empty ''linux''))
           ''LIBSWAT_ROOT'' LIBSWAT_ROOT)))
      (new_events empty_world (snd (snd (build_extension
         (example_host (example_run (Exited 0) (Exited 1) (Exited 0)) Map.empty ''linux'')
         example_ext empty_world))))) = 2"
proof -
  have p: "probes_ok (example_host (example_run (Exited 0) (Exited 1) (Exited 0)) Map.empty ''linux'')
             empty_world"
    by (simp add: probes_ok_def check_call_def example_host_def example_run_def run_leaving_def
          Let_def empty_world_def)
  show ?thesis by (rule fetch_invoked_twice [OF p])
qed

text \<open>
  C4, as stated, fails for the warning flags: after two runs of the step on the same build
  description \<open>-Wno-unused-variable\<close> occurs twice among the compile arguments.
\<close>

theorem link_prepare_flags_counterexample:
  "count_list (extra_compile_args
      (link_prepare ''/tmp/b/src/root'' ''/tmp/b/src/libswat.a''
         (link_prepare ''/tmp/b/src/root'' ''/tmp/b/src/libswat.a'' example_ext)))
      ''-Wno-unused-variable'' = 2"
  by (simp add: link_prepare_extra_compile_args example_ext_def)

text \<open>
  C4, amended. The include directory and the archive link argument are appended only
  when they are absent: a second run of the step with the same two paths leaves the
  include directories and the link arguments as the first run left them, and a path that
  was absent at the start occurs exactly once after both runs.
\<close>

theorem link_prepare_paths_idempotent:
  "include_dirs (link_prepare r a (link_prepare r a e)) = include_dirs (link_prepare r a e) \<and>
   extra_link_args (link_prepare r a (link_prepare r a e)) = extra_link_args (link_prepare r a e) \<and>
   (r \<notin> set (include_dirs e) \<longrightarrow>
      count_list (include_dirs (link_prepare r a (link_prepare r a e))) r = 1) \<and>
   (a \<notin> set (extra_link_args e) \<longrightarrow>
      count_list (extra_link_args (link_prepare r a (link_prepare r a e))) a = 1)"
  by (simp add: link_prepare_include_dirs link_prepare_extra_link_args count_list_0_iff)

theorem link_prepare_paths_idempotent_witness:
  "include_dirs (link_prepare ''/tmp/b/src/root'' ''/tmp/b/src/libswat.a''
      (link_prepare ''/tmp/b/src/root'' ''/tmp/b/src/libswat.a'' example_ext))
     = [''/tmp/b/src/root''] \<and>
   extra_link_args (link_prepare ''/tmp/b/src/root'' ''/tmp/b/src/libswat.a''
      (link_prepare ''/tmp/b/src/root'' ''/tmp/b/src/libswat.a'' example_ext))
     = [''/tmp/b/src/libswat.a''] \<and>
   count_list (include_dirs (link_prepare ''/tmp/b/src/root'' ''/tmp/b/src/libswat.a''
      (link_prepare ''/tmp/b/src/root'' ''/tmp/b/src/libswat.a'' example_ext)))
      ''/tmp/b/src/root'' = 1 \<and>
   count_list (extra_link_args (link_prepare ''/tmp/b/src/root'' ''/tmp/b/src/libswat.a''
      (link_prepare ''/tmp/b/src/root'' ''/tmp/b/src/libswat.a'' example_ext)))
      ''/tmp/b/src/libswat.a'' = 1"
  using link_prepare_paths_idempotent
          [of "''/tmp/b/src/root''" "''/tmp/b/src/libswat.a''" example_ext]
  by (simp add: link_prepare_include_dirs link_prepare_extra_link_args example_ext_def)

text \<open>
  C5. On a host where the program \<open>go\<close> cannot be found, the probe raises \<open>OSError\<close>. The
  probe catches \<open>CalledProcessError\<close> only, so the build ends with that \<open>OSError\<close> and not
  with the \<open>RuntimeError\<close> that tells where to get the Go tools. Nothing else has run and
  no workspace has been made.
\<close>

theorem go_not_found_raises_OSError:
  "build_extension (example_host (example_run NotFound (Exited 0) (Exited 0)) Map.empty ''linux'')
     example_ext empty_world
     = (Inl OSError, example_ext,
        \<lparr>events = [Call [''go'', ''version''] ''/work'' Map.empty], fs = []\<rparr>) \<and>
   (Inl OSError :: exn + unit) \<noteq> Inl go_missing"
  by (simp add: build_extension_def check_call_def example_host_def example_run_def
        run_leaving_def Let_def empty_world_def go_missing_def)




text \<open>
  C8. The platform profile is a function of the raw platform string alone. The string is
  put in lower case first; a string that then starts with \<open>win\<close> gives \<open>win\<close>, one that
  starts with \<open>darwin\<close> gives \<open>osx\<close>, and every other string gives \<open>unix\<close>. In particular
  every string with the prefix \<open>win\<close> or \<open>darwin\<close> as written is classified so.
\<close>

theorem classify_total:
  "(startswith (lower raw) ''win'' \<longrightarrow> classify raw = ''win'') \<and>
   (startswith (lower raw) ''darwin'' \<longrightarrow> classify raw = ''osx'') \<and>
   (\<not> startswith (lower raw) ''win'' \<and> \<not> startswith (lower raw) ''darwin''
      \<longrightarrow> classify raw = ''unix'') \<and>
   classify (''win'' @ rest) = ''win'' \<and>
   classify (''darwin'' @ rest) = ''osx'' \<and>
   classify raw \<in> {''win'', ''osx'', ''unix''}"
proof -
  have a: "startswith (lower (''win'' @ rest)) ''win''"
    unfolding lower_win by (rule startswith_append)
  have b: "startswith (lower (''darwin'' @ rest)) ''darwin''"
    unfolding lower_darwin by (rule startswith_append)
  show ?thesis
    using a b darwin_not_win [of "lower raw"] darwin_not_win [OF b]
    by (simp add: classify_def Let_def)
qed

theorem classify_total_witness:
  "classify ''win32'' = ''win'' \<and> classify ''darwin'' = ''osx'' \<and>
   classify ''linux2'' = ''unix'' \<and> classify ''cygwin'' = ''unix''"
  using classify_total [of "''win32''" "''32''"] classify_total [of "''darwin''" "[]"]
        classify_total [of "''linux2''" "[]"] classify_total [of "''cygwin''" "[]"]
  by (simp add: startswith_def lower_def lower_char_def)

text \<open>
  C9, as stated, fails for a second field with trailing characters: with
  \<open>PLAT=macosx-10.9rc-x86_64\<close> the field \<open>10.9rc\<close> is not of the form digits, dot, digits,
  and the deployment target is set to it all the same.
\<close>

theorem deployment_target_counterexample:
  "\<not> spec_major_minor ''10.9rc'' \<and>
   osx_env (example_host (example_run (Exited 0) (Exited 0) (Exited 0))
              [''PLAT'' \<mapsto> ''macosx-10.9rc-x86_64''] ''darwin'')
     ''osx'' Map.empty ''MACOSX_DEPLOYMENT_TARGET'' = Some ''10.9rc''"
  by (simp add: spec_major_minor_def osx_env_def example_host_def environ_get_def Let_def
        re_match_def re_match_version_def re_digits_def re_dot_def is_digit_def)

text \<open>
  C9, amended. On the \<open>osx\<close> profile the deployment target is set, to the whole second
  field of the \<open>PLAT\<close> string (default \<open>-10.7-\<close>) split at \<open>-\<close>, if and only if there is a
  second field and the version pattern matches at its start; what follows the match is
  not looked at. A field that begins with one or more ASCII digits, a dot and an ASCII
  digit is matched, and an ASCII field is matched only if it begins so. On any other
  profile the environment is left as it is.
\<close>

theorem deployment_target_prefix_match:
  "osx_env h ''osx'' env ''MACOSX_DEPLOYMENT_TARGET'' =
     (let plat = split_on CHR ''-'' [] (environ_get (os_environ h) ''PLAT'' ''-10.7-'')
      in if length plat > 1 \<and> re_match h (plat ! 1) then Some (plat ! 1)
         else env ''MACOSX_DEPLOYMENT_TARGET'') \<and>
   (platform \<noteq> ''osx'' \<longrightarrow> osx_env h platform env = env) \<and>
   ((\<exists>ds d rest. f = ds @ CHR ''.'' # d # rest \<and> ds \<noteq> [] \<and> list_all is_digit ds \<and> is_digit d)
      \<longrightarrow> re_match h f) \<and>
   (list_all is_ascii f \<and> re_match h f \<longrightarrow>
      (\<exists>ds d rest. f = ds @ CHR ''.'' # d # rest \<and> ds \<noteq> [] \<and> list_all is_digit ds \<and> is_digit d))"
proof -
  have a: "osx_env h ''osx'' env ''MACOSX_DEPLOYMENT_TARGET'' =
     (let plat = split_on CHR ''-'' [] (environ_get (os_environ h) ''PLAT'' ''-10.7-'')
      in if length plat > 1 \<and> re_match h (plat ! 1) then Some (plat ! 1)
         else env ''MACOSX_DEPLOYMENT_TARGET'')"
    by (simp add: osx_env_def Let_def)
  have b: "platform \<noteq> ''osx'' \<longrightarrow> osx_env h platform env = env"
    by (simp add: osx_env_def)
  have c: "(\<exists>ds d rest. f = ds @ CHR ''.'' # d # rest \<and> ds \<noteq> [] \<and> list_all is_digit ds \<and> is_digit d)
      \<longrightarrow> re_match h f"
    unfolding re_match_def re_match_version_shape by blast
  have d: "list_all is_ascii f \<and> re_match h f \<longrightarrow>
      (\<exists>ds d rest. f = ds @ CHR ''.'' # d # rest \<and> ds \<noteq> [] \<and> list_all is_digit ds \<and> is_digit d)"
    unfolding re_match_def re_match_version_shape by blast
  from a b c d show ?thesis by (intro conjI)
qed

theorem deployment_target_prefix_match_witness:
  "osx_env (example_host (example_run (Exited 0) (Exited 0) (Exited 0)) Map.empty ''darwin'')
     ''osx'' Map.empty ''MACOSX_DEPLOYMENT_TARGET'' = Some ''10.7'' \<and>
   osx_env (example_host (example_run (Exited 0) (Exited 0) (Exited 0))
              [''PLAT'' \<mapsto> ''macosx-10''] ''darwin'')
     ''osx'' Map.empty ''MACOSX_DEPLOYMENT_TARGET'' = None \<and>
   osx_env (example_host (example_run (Exited 0) (Exited 0) (Exited 0)) Map.empty ''linux'')
     ''unix'' [''GOPATH'' \<mapsto> ''/tmp/b''] = [''GOPATH'' \<mapsto> ''/tmp/b''] \<and>
   re_match (example_host (example_run (Exited 0) (Exited 0) (Exited 0)) Map.empty ''darwin'')
     ''10.9.1'' \<and>
   list_all is_ascii ''10'' \<and>
   \<not> re_match (example_host (example_run (Exited 0) (Exited 0) (Exited 0)) Map.empty ''darwin'')
     ''10''"
  using deployment_target_prefix_match
          [of "example_host (example_run (Exited 0) (Exited 0) (Exited 0)) Map.empty ''darwin''"
              Map.empty "''unix''" "''10.9.1''"]
        deployment_target_prefix_match
          [of "example_host (example_run (Exited 0) (Exited 0) (Exited 0))
                 [''PLAT'' \<mapsto> ''macosx-10''] ''darwin''"
              Map.empty "''unix''" "''10''"]
        deployment_target_prefix_match
          [of "example_host (example_run (Exited 0) (Exited 0) (Exited 0)) Map.empty ''linux''"
              "[''GOPATH'' \<mapsto> ''/tmp/b'']" "''unix''" "''10.9.1''"]
  by (simp add: example_host_def environ_get_def re_match_def re_match_version_def re_digits_def
        re_dot_def is_digit_def is_ascii_def)

end
